theory Spec2Isabelle
  imports Complex_Main
begin

section \<open>JavaScript values as the handlers of server.js see them\<close>

text \<open>
  A JavaScript number is an IEEE-754 double: \<open>NaN\<close>, one of the two infinities, or a
  finite value, which is a rational. The zero \<open>-0\<close> is identified with \<open>0\<close>: the two
  differ only in their sign, which neither server.js nor JSON reads. The literal \<open>0\<close>
  of line 128 is \<open>Fin 0\<close>.
\<close>

datatype jsnum = NaN | PosInf | NegInf | Fin rat

instantiation jsnum :: zero
begin

definition zero_jsnum :: jsnum where
  "zero_jsnum = Fin 0"

instance ..

end

text \<open>The values a parsed JSON body can hold, and \<open>undefined\<close> for what is absent.\<close>

datatype jsval =
    JUndefined
  | JNull
  | JBool bool
  | JNum jsnum
  | JStr string
  | JArr "jsval list"
  | JObj "(string \<times> jsval) list"

text \<open>Everything a \<open>try\<close> block of server.js can catch.\<close>

datatype error =
    TypeError
  | CastError
  | ValidationError
  | StoreError
  | BcryptError
  | JsonWebTokenError
  | TokenExpiredError

text \<open>
  \<open>bindE\<close> sequences two steps of a \<open>try\<close> block: the first \<open>throw\<close> ends it.
\<close>

definition bindE :: "error + 'a \<Rightarrow> ('a \<Rightarrow> error + 'b) \<Rightarrow> error + 'b" where
  "bindE m f = (case m of Inl e \<Rightarrow> Inl e | Inr x \<Rightarrow> f x)"

text \<open>
  Property access \<open>v.k\<close> for the keys server.js reads (\<open>items\<close>, \<open>price\<close>,
  \<open>quantity\<close>, \<open>productId\<close>, \<open>name\<close>, \<open>email\<close>, \<open>password\<close>, \<open>id\<close>),
  none of which a built-in prototype of a JSON value defines: on \<open>undefined\<close> and
  \<open>null\<close> it throws a TypeError, on an object it reads the own property, on every
  other value it is \<open>undefined\<close>.
\<close>

fun get_prop :: "jsval \<Rightarrow> string \<Rightarrow> error + jsval" where
  "get_prop JUndefined k = Inl TypeError"
| "get_prop JNull k = Inl TypeError"
| "get_prop (JObj kvs) k = Inr (case map_of kvs k of None \<Rightarrow> JUndefined | Some v \<Rightarrow> v)"
| "get_prop v k = Inr JUndefined"

text \<open>\<open>!v\<close> is true exactly on the falsy values.\<close>

fun truthy :: "jsval \<Rightarrow> bool" where
  "truthy JUndefined = False"
| "truthy JNull = False"
| "truthy (JBool b) = b"
| "truthy (JNum NaN) = False"
| "truthy (JNum PosInf) = True"
| "truthy (JNum NegInf) = True"
| "truthy (JNum (Fin r)) = (r \<noteq> 0)"
| "truthy (JStr s) = (s \<noteq> [])"
| "truthy (JArr xs) = True"
| "truthy (JObj kvs) = True"

section \<open>The libraries server.js calls\<close>

text \<open>
  A signed token: its payload, the time of issue and of expiry in whole seconds (the
  NumericDate of a JSON Web Token) and the key it was signed with. A token verifies
  under a secret exactly when it was signed with that secret.
\<close>

record jwt =
  jwt_payload :: jsval
  jwt_iat :: nat
  jwt_exp :: "nat option"
  jwt_key :: string

text \<open>
  What server.js takes from the JavaScript runtime, mongoose, bcryptjs and
  jsonwebtoken and this development does not fix, as parameters:
  \<^item> \<open>round_double\<close>: the double that an exact sum or product of two finite doubles
    is rounded to, an infinity when it overflows;
  \<^item> \<open>to_number\<close>: \<open>Number(v)\<close> on a string, an array or an object;
  \<^item> \<open>cast_objectid\<close>, \<open>cast_number\<close>, \<open>cast_string\<close>: mongoose's cast of a
    value to the type of a schema path, \<open>None\<close> when the value cannot be cast;
  \<^item> \<open>email_query\<close>: the filter that \<open>{ email: v }\<close> denotes for a value that is
    not a string;
  \<^item> \<open>bcrypt_hash\<close>, \<open>bcrypt_compare\<close>: \<open>bcrypt.hash(v, 10)\<close> and
    \<open>bcrypt.compare(v, digest)\<close>, either of which may reject;
  \<^item> \<open>jwt_encode\<close>, \<open>jwt_decode\<close>: the wire form of a token.
\<close>

record deps =
  round_double :: "rat \<Rightarrow> jsnum"
  to_number :: "jsval \<Rightarrow> error + jsnum"
  cast_objectid :: "jsval \<Rightarrow> string option"
  cast_number :: "jsval \<Rightarrow> jsnum option"
  cast_string :: "jsval \<Rightarrow> string option"
  email_query :: "jsval \<Rightarrow> error + (string \<Rightarrow> bool)"
  bcrypt_hash :: "jsval \<Rightarrow> error + string"
  bcrypt_compare :: "jsval \<Rightarrow> string \<Rightarrow> error + bool"
  jwt_encode :: "jwt \<Rightarrow> string"
  jwt_decode :: "string \<Rightarrow> jwt option"

text \<open>\<open>Number(v)\<close>: fixed by the language on the primitive values.\<close>

fun Number :: "deps \<Rightarrow> jsval \<Rightarrow> error + jsnum" where
  "Number L JUndefined = Inr NaN"
| "Number L JNull = Inr (Fin 0)"
| "Number L (JBool b) = Inr (Fin (if b then 1 else 0))"
| "Number L (JNum n) = Inr n"
| "Number L v = to_number L v"

text \<open>
  \<open>x + y\<close> on two numbers: \<open>NaN\<close> absorbs, infinities of opposite sign give
  \<open>NaN\<close>, an infinity absorbs what is finite, and the exact sum of two finite values
  is rounded.
\<close>

fun num_add :: "deps \<Rightarrow> jsnum \<Rightarrow> jsnum \<Rightarrow> jsnum" where
  "num_add L NaN y = NaN"
| "num_add L x NaN = NaN"
| "num_add L PosInf NegInf = NaN"
| "num_add L NegInf PosInf = NaN"
| "num_add L PosInf y = PosInf"
| "num_add L NegInf y = NegInf"
| "num_add L x PosInf = PosInf"
| "num_add L x NegInf = NegInf"
| "num_add L (Fin a) (Fin b) = round_double L (a + b)"

text \<open>
  The sign rule for an infinity times \<open>r\<close>: zero times an infinity is \<open>NaN\<close>.
\<close>

definition signed_inf :: "bool \<Rightarrow> rat \<Rightarrow> jsnum" where
  "signed_inf positive r =
     (if r = 0 then NaN else if (0 < r) = positive then PosInf else NegInf)"

text \<open>
  \<open>x * y\<close> on two numbers: \<open>NaN\<close> absorbs, an infinity times a value takes the sign
  of the product, and the exact product of two finite values is rounded.
\<close>

fun num_mul :: "deps \<Rightarrow> jsnum \<Rightarrow> jsnum \<Rightarrow> jsnum" where
  "num_mul L NaN y = NaN"
| "num_mul L x NaN = NaN"
| "num_mul L PosInf PosInf = PosInf"
| "num_mul L PosInf NegInf = NegInf"
| "num_mul L NegInf PosInf = NegInf"
| "num_mul L NegInf NegInf = PosInf"
| "num_mul L PosInf (Fin b) = signed_inf True b"
| "num_mul L NegInf (Fin b) = signed_inf False b"
| "num_mul L (Fin a) PosInf = signed_inf True a"
| "num_mul L (Fin a) NegInf = signed_inf False a"
| "num_mul L (Fin a) (Fin b) = round_double L (a * b)"

text \<open>
  Modelled from the spec: \<open>issueToken\<close>, which is jsonwebtoken's \<open>sign\<close> and not
  part of server.js. As lines 98 and 113 call it,
  \<open>jwt.sign({ id }, JWT_SECRET, { expiresIn: '7d' })\<close> at time \<open>now\<close> produces a
  signed token that embeds the id and an expiration seven days, 604800 seconds, from
  issuance.
\<close>

definition jwt_sign :: "deps \<Rightarrow> jsval \<Rightarrow> string \<Rightarrow> nat \<Rightarrow> string" where
  "jwt_sign L ident secret now =
     jwt_encode L \<lparr>jwt_payload = JObj [(''id'', ident)], jwt_iat = now,
                   jwt_exp = Some (now + 604800), jwt_key = secret\<rparr>"

text \<open>
  Modelled from the spec: \<open>verifyToken\<close>, which is jsonwebtoken's \<open>verify\<close> and
  not part of server.js. \<open>jwt.verify(token, JWT_SECRET)\<close> at time \<open>now\<close> checks
  signature and expiration: it throws on a malformed token, on a signature made with
  another key, and from the second of expiry on; otherwise it returns the payload.
\<close>

definition jwt_verify :: "deps \<Rightarrow> string \<Rightarrow> string \<Rightarrow> nat \<Rightarrow> error + jsval" where
  "jwt_verify L token secret now =
     (case jwt_decode L token of
        None \<Rightarrow> Inl JsonWebTokenError
      | Some t \<Rightarrow>
          if jwt_key t \<noteq> secret then Inl JsonWebTokenError
          else (case jwt_exp t of
                  None \<Rightarrow> Inr (jwt_payload t)
                | Some e \<Rightarrow> if e \<le> now then Inl TokenExpiredError else Inr (jwt_payload t)))"

section \<open>Schemas and the store\<close>

record product =
  product_id :: string
  product_name :: string
  product_description :: string
  product_price :: jsnum
  product_image :: string

record user =
  user_id :: string
  user_name :: string
  user_email :: string
  user_password :: string

record order_item =
  item_productId :: string
  item_quantity :: jsnum
  item_price :: jsnum

record order =
  order_id :: string
  order_userId :: string
  order_items :: "order_item list"
  order_total :: jsnum
  order_createdAt :: nat

text \<open>
  The three collections, and whether the connection that \<open>mongoose.connect\<close> opens at
  startup is there: server.js only logs a connection error and serves requests all the
  same, and every operation on a store that is not connected rejects.
\<close>

record store =
  connected :: bool
  products :: "product list"
  users :: "user list"
  orders :: "order list"

text \<open>
  Modelled from the spec: mongoose's validation of a document against its schema, which
  is not part of server.js. A path declared \<open>required: true\<close> fails when the value is
  absent (\<open>undefined\<close> or \<open>null\<close>) or cannot be cast to the declared type; a Number
  path takes a number, an infinity too, as it is and rejects \<open>NaN\<close>; a String path takes a string as it
  is and, when required, rejects the empty string.
\<close>

fun required_objectid :: "deps \<Rightarrow> jsval \<Rightarrow> error + string" where
  "required_objectid L JUndefined = Inl ValidationError"
| "required_objectid L JNull = Inl ValidationError"
| "required_objectid L v =
     (case cast_objectid L v of None \<Rightarrow> Inl ValidationError | Some i \<Rightarrow> Inr i)"

fun required_number :: "deps \<Rightarrow> jsval \<Rightarrow> error + jsnum" where
  "required_number L JUndefined = Inl ValidationError"
| "required_number L JNull = Inl ValidationError"
| "required_number L (JNum NaN) = Inl ValidationError"
| "required_number L (JNum n) = Inr n"
| "required_number L v =
     (case cast_number L v of None \<Rightarrow> Inl ValidationError | Some n \<Rightarrow> Inr n)"

fun required_string :: "deps \<Rightarrow> jsval \<Rightarrow> error + string" where
  "required_string L JUndefined = Inl ValidationError"
| "required_string L JNull = Inl ValidationError"
| "required_string L (JStr s) = (if s = [] then Inl ValidationError else Inr s)"
| "required_string L v =
     (case cast_string L v of
        None \<Rightarrow> Inl ValidationError
      | Some s \<Rightarrow> if s = [] then Inl ValidationError else Inr s)"

text \<open>One element of \<open>items\<close> against the sub-schema of lines 40-44.\<close>

fun cast_item :: "deps \<Rightarrow> jsval \<Rightarrow> error + order_item" where
  "cast_item L (JObj kvs) =
     bindE (get_prop (JObj kvs) ''productId'') (\<lambda>p.
     bindE (required_objectid L p) (\<lambda>pid.
     bindE (get_prop (JObj kvs) ''quantity'') (\<lambda>q.
     bindE (required_number L q) (\<lambda>qn.
     bindE (get_prop (JObj kvs) ''price'') (\<lambda>pr.
     bindE (required_number L pr) (\<lambda>prn.
       Inr \<lparr>item_productId = pid, item_quantity = qn, item_price = prn\<rparr>))))))"
| "cast_item L v = Inl ValidationError"

fun cast_items :: "deps \<Rightarrow> jsval list \<Rightarrow> error + order_item list" where
  "cast_items L [] = Inr []"
| "cast_items L (it # its) =
     bindE (cast_item L it) (\<lambda>i.
     bindE (cast_items L its) (\<lambda>is. Inr (i # is)))"

text \<open>
  Modelled from the spec: mongoose's \<open>create\<close>, which is not part of server.js, on
  orderSchema (lines 37-48). \<open>Order.create({ userId, items, total })\<close> validates the
  document, then stores it with a generated identifier \<open>newId\<close> and \<open>createdAt\<close>
  set to the time of creation. A failure leaves the store as it was.
\<close>

definition Order_create ::
  "deps \<Rightarrow> nat \<Rightarrow> string \<Rightarrow> store \<Rightarrow> jsval \<Rightarrow> jsval list \<Rightarrow> jsnum \<Rightarrow> error + (order \<times> store)" where
  "Order_create L now newId st uid its tot =
     bindE (required_objectid L uid) (\<lambda>u.
     bindE (cast_items L its) (\<lambda>is.
     bindE (required_number L (JNum tot)) (\<lambda>t.
       if \<not> connected st then Inl StoreError
       else
         (let doc = \<lparr>order_id = newId, order_userId = u, order_items = is,
                     order_total = t, order_createdAt = now\<rparr>
          in Inr (doc, st\<lparr>orders := orders st @ [doc]\<rparr>)))))"

section \<open>Requests and responses\<close>

record request =
  authorization :: "string option"
  params_id :: string
  body :: jsval
  userId :: jsval

datatype payload =
    Message string
  | Products "product list"
  | ProductDoc product
  | Session string string string string
  | OrderDoc order
  | Plain string

record response =
  status :: nat
  content :: payload

text \<open>\<open>res.status(c).json({ message: m })\<close>.\<close>

definition reply :: "nat \<Rightarrow> string \<Rightarrow> response" where
  "reply c m = \<lparr>status = c, content = Message m\<rparr>"

text \<open>
  \<open>res.json(v)\<close> writes \<open>JSON.stringify(v)\<close>, and JSON has no \<open>NaN\<close> and no
  infinity: a number that is not finite is written \<open>null\<close>.
\<close>

fun json_number :: "jsnum \<Rightarrow> jsval" where
  "json_number (Fin r) = JNum (Fin r)"
| "json_number n = JNull"

text \<open>
  The \<open>total\<close> member of the body a client receives: that of the order written by
  \<open>res.status(201).json(order)\<close>, and \<open>undefined\<close> in every other body.
\<close>

fun wire_total :: "payload \<Rightarrow> jsval" where
  "wire_total (OrderDoc doc) = json_number (order_total doc)"
| "wire_total p = JUndefined"

section \<open>Auth middleware (lines 55-66)\<close>

text \<open>
  \<open>Inl\<close> is the response the middleware sends itself; \<open>Inr\<close> is the request, with
  \<open>userId\<close> set, that it hands to \<open>next()\<close>.
\<close>

text \<open>
  Lines 60-61, \<open>jwt.verify(token, JWT_SECRET)\<close> and then \<open>decoded.id\<close>: the id a
  token carries, or what the \<open>try\<close> block catches.
\<close>

definition decoded_id :: "deps \<Rightarrow> string \<Rightarrow> nat \<Rightarrow> string \<Rightarrow> error + jsval" where
  "decoded_id L secret now token =
     bindE (jwt_verify L token secret now) (\<lambda>decoded. get_prop decoded ''id'')"

definition authUser :: "deps \<Rightarrow> string \<Rightarrow> nat \<Rightarrow> request \<Rightarrow> response + request" where
  "authUser L secret now req =
     (let auth = (case authorization req of None \<Rightarrow> [] | Some a \<Rightarrow> a);
          token = (if take 7 auth = ''Bearer '' then Some (drop 7 auth) else None)
      in case token of
           None \<Rightarrow> Inl (reply 401 ''No token provided'')
         | Some t \<Rightarrow>
             if t = [] then Inl (reply 401 ''No token provided'')
             else (case decoded_id L secret now t of
                     Inl e \<Rightarrow> Inl (reply 401 ''Invalid token'')
                   | Inr i \<Rightarrow> Inr (req\<lparr>userId := i\<rparr>)))"

text \<open>
  \<open>app.post(path, authUser, handler)\<close>: the handler runs only when the middleware
  calls \<open>next()\<close>.
\<close>

definition guarded ::
  "(response + request) \<Rightarrow> (store \<Rightarrow> request \<Rightarrow> response \<times> store) \<Rightarrow> store \<Rightarrow> response \<times> store" where
  "guarded a handler st = (case a of Inl r \<Rightarrow> (r, st) | Inr req \<Rightarrow> handler st req)"

text \<open>
  \<open>try { ... } catch (e) { res.status(c).json({ message: m }) }\<close>: whatever the body
  throws becomes that response, and the store is as it was.
\<close>

definition try_catch ::
  "error + (response \<times> store) \<Rightarrow> nat \<Rightarrow> string \<Rightarrow> store \<Rightarrow> response \<times> store" where
  "try_catch m c msg st = (case m of Inl e \<Rightarrow> (reply c msg, st) | Inr r \<Rightarrow> r)"

section \<open>Orders (lines 121-134)\<close>

text \<open>
  \<open>items.reduce((sum, it) => sum + (Number(it.price) * Number(it.quantity)), 0)\<close>,
  with the accumulator \<open>sum\<close> as the argument \<open>acc\<close>.
\<close>

fun reduce_total :: "deps \<Rightarrow> jsnum \<Rightarrow> jsval list \<Rightarrow> error + jsnum" where
  "reduce_total L acc [] = Inr acc"
| "reduce_total L acc (it # its) =
     bindE (get_prop it ''price'') (\<lambda>p.
     bindE (Number L p) (\<lambda>pn.
     bindE (get_prop it ''quantity'') (\<lambda>q.
     bindE (Number L q) (\<lambda>qn.
       reduce_total L (num_add L acc (num_mul L pn qn)) its))))"

text \<open>
  What one item contributes: its price times its quantity, each as \<open>Number\<close> reads
  it from the submitted item.
\<close>

definition line_amount :: "deps \<Rightarrow> jsval \<Rightarrow> error + jsnum" where
  "line_amount L it =
     bindE (get_prop it ''price'') (\<lambda>p.
     bindE (Number L p) (\<lambda>pn.
     bindE (get_prop it ''quantity'') (\<lambda>q.
     bindE (Number L q) (\<lambda>qn. Inr (num_mul L pn qn)))))"

definition orders_body ::
  "deps \<Rightarrow> nat \<Rightarrow> string \<Rightarrow> store \<Rightarrow> request \<Rightarrow> error + (response \<times> store)" where
  "orders_body L now newId st req =
     bindE (get_prop (body req) ''items'') (\<lambda>items.
       case items of
         JArr its \<Rightarrow>
           if its = [] then Inr (reply 400 ''Items required'', st)
           else
             bindE (reduce_total L 0 its) (\<lambda>tot.
             bindE (Order_create L now newId st (userId req) its tot) (\<lambda>(doc, st').
               Inr (\<lparr>status = 201, content = OrderDoc doc\<rparr>, st')))
       | _ \<Rightarrow> Inr (reply 400 ''Items required'', st))"

definition orders_handler ::
  "deps \<Rightarrow> nat \<Rightarrow> string \<Rightarrow> store \<Rightarrow> request \<Rightarrow> response \<times> store" where
  "orders_handler L now newId st req =
     try_catch (orders_body L now newId st req) 500 ''Server error'' st"

definition post_orders ::
  "deps \<Rightarrow> string \<Rightarrow> nat \<Rightarrow> string \<Rightarrow> store \<Rightarrow> request \<Rightarrow> response \<times> store" where
  "post_orders L secret now newId st req =
     guarded (authUser L secret now req) (orders_handler L now newId) st"

section \<open>Products (lines 70-87)\<close>

text \<open>
  Modelled from the spec: mongoose's \<open>find\<close>, which is not part of server.js.
  \<open>Product.find()\<close> gives all stored products.
\<close>

definition Product_find :: "store \<Rightarrow> error + product list" where
  "Product_find st = (if connected st then Inr (products st) else Inl StoreError)"

definition get_products :: "store \<Rightarrow> response \<times> store" where
  "get_products st =
     try_catch
       (bindE (Product_find st) (\<lambda>ps. Inr (\<lparr>status = 200, content = Products ps\<rparr>, st)))
       500 ''Server error'' st"

text \<open>
  Modelled from the spec: mongoose's \<open>findById\<close>, which is not part of server.js.
  \<open>Product.findById(id)\<close> gives the product with that identifier or \<open>null\<close>; the
  identifier is cast first, and a malformed one throws a CastError before the store is
  asked.
\<close>

definition Product_findById :: "deps \<Rightarrow> store \<Rightarrow> string \<Rightarrow> error + product option" where
  "Product_findById L st i =
     (case cast_objectid L (JStr i) of
        None \<Rightarrow> Inl CastError
      | Some oid \<Rightarrow>
          if connected st then Inr (find (\<lambda>p. product_id p = oid) (products st))
          else Inl StoreError)"

definition get_product :: "deps \<Rightarrow> store \<Rightarrow> request \<Rightarrow> response \<times> store" where
  "get_product L st req =
     try_catch
       (bindE (Product_findById L st (params_id req)) (\<lambda>p.
          case p of
            None \<Rightarrow> Inr (reply 404 ''Product not found'', st)
          | Some d \<Rightarrow> Inr (\<lparr>status = 200, content = ProductDoc d\<rparr>, st)))
       400 ''Invalid ID'' st"

section \<open>Auth (lines 90-118)\<close>

text \<open>The filter \<open>{ email }\<close>: on a string, equality with it.\<close>

fun email_filter :: "deps \<Rightarrow> jsval \<Rightarrow> error + (string \<Rightarrow> bool)" where
  "email_filter L (JStr s) = Inr (\<lambda>e. e = s)"
| "email_filter L v = email_query L v"

text \<open>
  Modelled from the spec: mongoose's \<open>findOne\<close>, which is not part of server.js.
  \<open>User.findOne({ email })\<close> gives the first user the filter matches, or \<open>null\<close>.
\<close>

definition User_findOne :: "deps \<Rightarrow> store \<Rightarrow> jsval \<Rightarrow> error + user option" where
  "User_findOne L st email =
     bindE (email_filter L email) (\<lambda>matches.
       if connected st then Inr (find (\<lambda>u. matches (user_email u)) (users st))
       else Inl StoreError)"

text \<open>
  Modelled from the spec: mongoose's \<open>create\<close>, which is not part of server.js, on
  userSchema (lines 31-35). In \<open>User.create({ name, email, password: hash })\<close> the
  three paths are required strings, and the unique index on \<open>email\<close> makes the store
  reject a document whose email is already there.
\<close>

definition User_create ::
  "deps \<Rightarrow> string \<Rightarrow> store \<Rightarrow> jsval \<Rightarrow> jsval \<Rightarrow> string \<Rightarrow> error + (user \<times> store)" where
  "User_create L newId st name email hash =
     bindE (required_string L name) (\<lambda>n.
     bindE (required_string L email) (\<lambda>e.
     bindE (required_string L (JStr hash)) (\<lambda>h.
       if \<not> connected st then Inl StoreError
       else if e \<in> set (map user_email (users st)) then Inl StoreError
       else
         (let doc = \<lparr>user_id = newId, user_name = n, user_email = e, user_password = h\<rparr>
          in Inr (doc, st\<lparr>users := users st @ [doc]\<rparr>)))))"

text \<open>
  \<open>res.json({ token, user: { id, name, email } })\<close> with a token signed for the user.
\<close>

definition session :: "deps \<Rightarrow> string \<Rightarrow> nat \<Rightarrow> user \<Rightarrow> response" where
  "session L secret now u =
     \<lparr>status = 200,
      content = Session (jwt_sign L (JStr (user_id u)) secret now)
                        (user_id u) (user_name u) (user_email u)\<rparr>"

definition register_body ::
  "deps \<Rightarrow> string \<Rightarrow> nat \<Rightarrow> string \<Rightarrow> store \<Rightarrow> request \<Rightarrow> error + (response \<times> store)" where
  "register_body L secret now newId st req =
     bindE (get_prop (body req) ''name'') (\<lambda>name.
     bindE (get_prop (body req) ''email'') (\<lambda>email.
     bindE (get_prop (body req) ''password'') (\<lambda>password.
       if \<not> truthy name \<or> \<not> truthy email \<or> \<not> truthy password
       then Inr (reply 400 ''Missing fields'', st)
       else
         bindE (User_findOne L st email) (\<lambda>exists.
           case exists of
             Some u \<Rightarrow> Inr (reply 409 ''Email already registered'', st)
           | None \<Rightarrow>
               bindE (bcrypt_hash L password) (\<lambda>hash.
               bindE (User_create L newId st name email hash) (\<lambda>(u, st').
                 Inr (session L secret now u, st')))))))"

definition register ::
  "deps \<Rightarrow> string \<Rightarrow> nat \<Rightarrow> string \<Rightarrow> store \<Rightarrow> request \<Rightarrow> response \<times> store" where
  "register L secret now newId st req =
     try_catch (register_body L secret now newId st req) 500 ''Server error'' st"

definition login_body ::
  "deps \<Rightarrow> string \<Rightarrow> nat \<Rightarrow> store \<Rightarrow> request \<Rightarrow> error + (response \<times> store)" where
  "login_body L secret now st req =
     bindE (get_prop (body req) ''email'') (\<lambda>email.
     bindE (get_prop (body req) ''password'') (\<lambda>password.
       if \<not> truthy email \<or> \<not> truthy password
       then Inr (reply 400 ''Missing fields'', st)
       else
         bindE (User_findOne L st email) (\<lambda>found.
           case found of
             None \<Rightarrow> Inr (reply 401 ''Invalid credentials'', st)
           | Some u \<Rightarrow>
               bindE (bcrypt_compare L password (user_password u)) (\<lambda>ok.
                 if \<not> ok then Inr (reply 401 ''Invalid credentials'', st)
                 else Inr (session L secret now u, st)))))"

definition login :: "deps \<Rightarrow> string \<Rightarrow> nat \<Rightarrow> store \<Rightarrow> request \<Rightarrow> response \<times> store" where
  "login L secret now st req =
     try_catch (login_body L secret now st req) 500 ''Server error'' st"

section \<open>Liveness (lines 136-138)\<close>

definition root :: "store \<Rightarrow> response \<times> store" where
  "root st = (\<lparr>status = 200, content = Plain ''USER API running''\<rparr>, st)"

section \<open>Sample data\<close>

text \<open>
  One instance of the parameters, to run the handlers on concrete requests: a sum or
  product overflows to an infinity from \<open>2^1024 - 2^970\<close> on, as a double does, and is
  kept as it is below that, which is what a double does on the small integers and the
  powers of two used here; every string of 24 characters is an identifier, nothing else is cast, a digest is the
  password behind a prefix, and the only token on the wire is \<open>tok\<close>, signed at time
  1000 for one user with the development secret of line 15.
\<close>

definition demo_token :: jwt where
  "demo_token =
     \<lparr>jwt_payload = JObj [(''id'', JStr ''507f1f77bcf86cd799439011'')], jwt_iat = 1000,
      jwt_exp = Some 605800, jwt_key = ''dev_secret''\<rparr>"

definition demo :: deps where
  "demo =
     \<lparr>round_double = (\<lambda>r. if 2 ^ 1024 - 2 ^ 970 \<le> r then PosInf
                         else if r \<le> - (2 ^ 1024 - 2 ^ 970) then NegInf else Fin r),
      to_number = (\<lambda>v. Inr NaN),
      cast_objectid = (\<lambda>v. case v of JStr s \<Rightarrow> if length s = 24 then Some s else None
                                | _ \<Rightarrow> None),
      cast_number = (\<lambda>v. None),
      cast_string = (\<lambda>v. None),
      email_query = (\<lambda>v. Inl CastError),
      bcrypt_hash = (\<lambda>v. case v of JStr s \<Rightarrow> Inr (''h:'' @ s) | _ \<Rightarrow> Inl BcryptError),
      bcrypt_compare = (\<lambda>v h. case v of JStr s \<Rightarrow> Inr (h = ''h:'' @ s)
                                   | _ \<Rightarrow> Inl BcryptError),
      jwt_encode = (\<lambda>t. ''tok''),
      jwt_decode = (\<lambda>s. if s = ''tok'' then Some demo_token else None)\<rparr>"

definition empty_store :: store where
  "empty_store = \<lparr>connected = True, products = [], users = [], orders = []\<rparr>"

definition alice :: user where
  "alice =
     \<lparr>user_id = ''507f1f77bcf86cd799439011'', user_name = ''Alice'',
      user_email = ''alice@example.com'', user_password = ''h:correct horse''\<rparr>"

definition alice_store :: store where
  "alice_store = \<lparr>connected = True, products = [], users = [alice], orders = []\<rparr>"

definition plain_request :: "string option \<Rightarrow> jsval \<Rightarrow> request" where
  "plain_request a b = \<lparr>authorization = a, params_id = [], body = b, userId = JUndefined\<rparr>"

definition login_request :: "string \<Rightarrow> string \<Rightarrow> request" where
  "login_request e p = plain_request None (JObj [(''email'', JStr e), (''password'', JStr p)])"

definition register_request :: "string \<Rightarrow> string \<Rightarrow> string \<Rightarrow> request" where
  "register_request n e p =
     plain_request None (JObj [(''name'', JStr n), (''email'', JStr e), (''password'', JStr p)])"

definition order_request :: "jsval list \<Rightarrow> request" where
  "order_request its = plain_request (Some ''Bearer tok'') (JObj [(''items'', JArr its)])"

definition line :: "rat \<Rightarrow> rat \<Rightarrow> jsval" where
  "line p q =
     JObj [(''productId'', JStr ''65a1b2c3d4e5f60718293a4b''),
           (''quantity'', JNum (Fin q)), (''price'', JNum (Fin p))]"


section \<open>Basic facts\<close>

lemma bindE_Inl [simp]: "bindE (Inl e) f = Inl e"
  by (simp add: bindE_def)

lemma bindE_Inr [simp]: "bindE (Inr x) f = f x"
  by (simp add: bindE_def)

lemma bindE_eq_Inr: "bindE m f = Inr y \<longleftrightarrow> (\<exists>x. m = Inr x \<and> f x = Inr y)"
  by (cases m) simp_all

lemma bindE_eq_Inl: "bindE m f = Inl e \<longleftrightarrow> (m = Inl e \<or> (\<exists>x. m = Inr x \<and> f x = Inl e))"
  by (cases m) simp_all

lemma reduce_total_fold:
  "reduce_total L acc its = Inr t \<Longrightarrow>
     \<exists>amts. map (line_amount L) its = map Inr amts \<and> t = foldl (num_add L) acc amts"
proof (induction its arbitrary: acc)
  case Nil
  then show ?case by simp
next
  case (Cons it its)
  from Cons.prems obtain p pn q qn where
    a: "get_prop it ''price'' = Inr p" "Number L p = Inr pn"
       "get_prop it ''quantity'' = Inr q" "Number L q = Inr qn"
    and r: "reduce_total L (num_add L acc (num_mul L pn qn)) its = Inr t"
    by (auto simp: bindE_eq_Inr)
  from Cons.IH[OF r] obtain amts where
    m: "map (line_amount L) its = map Inr amts"
    and t: "t = foldl (num_add L) (num_add L acc (num_mul L pn qn)) amts"
    by blast
  have "line_amount L it = Inr (num_mul L pn qn)"
    using a by (simp add: line_amount_def)
  with m t have "map (line_amount L) (it # its) = map Inr (num_mul L pn qn # amts) \<and>
      t = foldl (num_add L) acc (num_mul L pn qn # amts)"
    by simp
  then show ?case by blast
qed

lemma line_amount_numbers:
  "get_prop it ''price'' = Inr (JNum p) \<Longrightarrow> get_prop it ''quantity'' = Inr (JNum q) \<Longrightarrow>
     line_amount L it = Inr (num_mul L p q)"
  by (simp add: line_amount_def)

lemma authUser_Inr:
  "authUser L secret now req = Inr req' \<Longrightarrow> \<exists>i. req' = req\<lparr>userId := i\<rparr>"
  by (auto simp: authUser_def Let_def split: option.splits if_splits sum.splits)

lemma required_number_JNum:
  "required_number L (JNum n) = Inr t \<Longrightarrow> t = n"
  by (cases n) simp_all

lemma required_number_not_NaN:
  "required_number L (JNum n) = Inr t \<Longrightarrow> t \<noteq> NaN"
  by (cases n) auto

lemma Order_create_Inr:
  "Order_create L now newId st uid its tot = Inr (doc, st') \<Longrightarrow>
     order_total doc = tot \<and> tot \<noteq> NaN \<and> st' = st\<lparr>orders := orders st @ [doc]\<rparr>"
  by (auto simp: Order_create_def bindE_eq_Inr Let_def split: if_splits
      dest: required_number_JNum required_number_not_NaN)

lemma Order_create_products:
  "Order_create L now newId (st\<lparr>products := ps\<rparr>) uid its tot =
     map_sum id (\<lambda>(d, s). (d, s\<lparr>products := ps\<rparr>)) (Order_create L now newId st uid its tot)"
  by (simp add: Order_create_def bindE_def Let_def split: sum.splits)

lemma orders_handler_products:
  "orders_handler L now newId (st\<lparr>products := ps\<rparr>) req =
     (case orders_handler L now newId st req of (r, s) \<Rightarrow> (r, s\<lparr>products := ps\<rparr>))"
  by (simp add: orders_handler_def try_catch_def orders_body_def Order_create_products
      bindE_def split: sum.splits jsval.splits prod.splits)

lemma post_orders_products:
  "post_orders L secret now newId (st\<lparr>products := ps\<rparr>) req =
     (case post_orders L secret now newId st req of (r, s) \<Rightarrow> (r, s\<lparr>products := ps\<rparr>))"
  by (simp add: post_orders_def guarded_def orders_handler_products split: sum.splits)

section \<open>C1: the total of a created order\<close>

text \<open>
  The claim as written fails where the sum overflows: for one item of price \<open>2^1023\<close>
  and quantity 2 the order is created with the total \<open>Infinity\<close>, and the body of the
  201 response carries \<open>null\<close> for it, which is not the sum.
\<close>

theorem orders_total_counterexample:
  "status (fst (post_orders demo ''dev_secret'' 2000 ''65a1b2c3d4e5f60718293a4c'' empty_store
     (order_request [line (2 ^ 1023) 2]))) = 201 \<and>
   map order_total (orders (snd (post_orders demo ''dev_secret'' 2000
     ''65a1b2c3d4e5f60718293a4c'' empty_store (order_request [line (2 ^ 1023) 2])))) = [PosInf] \<and>
   foldl (num_add demo) 0 [num_mul demo (Fin (2 ^ 1023)) (Fin 2)] = PosInf \<and>
   wire_total (content (fst (post_orders demo ''dev_secret'' 2000 ''65a1b2c3d4e5f60718293a4c''
     empty_store (order_request [line (2 ^ 1023) 2])))) = JNull \<and>
   JNull \<noteq> JNum PosInf \<and> JNull \<noteq> JNum (Fin (2 ^ 1023 * 2))"
  by (simp add: post_orders_def guarded_def orders_handler_def try_catch_def orders_body_def
      Order_create_def authUser_def jwt_verify_def demo_def demo_token_def order_request_def
      plain_request_def decoded_id_def line_def empty_store_def zero_jsnum_def Let_def)

text \<open>
  C1, amended. An authenticated POST /api/orders whose body holds a non-empty \<open>items\<close>
  array either fails with 500 and creates nothing, or answers 201 with the created
  order, appended to the stored orders. Its stored \<open>total\<close> is the sum over the
  submitted items of price times quantity, each read by \<open>Number\<close>, added from 0 in
  the order of the items in double arithmetic, as \<open>reduce\<close> does; for an item whose
  price and quantity are numbers the product is theirs. The total is never \<open>NaN\<close>.
  The body of the response carries the same total when it is finite and \<open>null\<close> when
  it is an infinity. The products of the store play no part: with any other product
  list the response and the stored orders are the same.
\<close>

theorem orders_total_is_sum:
  assumes auth: "authUser L secret now req = Inr req'"
    and items: "get_prop (body req) ''items'' = Inr (JArr its)"
    and nonempty: "its \<noteq> []"
    and run: "post_orders L secret now newId st req = (res, st')"
  shows "((res = reply 500 ''Server error'' \<and> st' = st) \<or>
          (\<exists>doc amts. res = \<lparr>status = 201, content = OrderDoc doc\<rparr> \<and>
             st' = st\<lparr>orders := orders st @ [doc]\<rparr> \<and>
             map (line_amount L) its = map Inr amts \<and>
             order_total doc = foldl (num_add L) 0 amts \<and>
             order_total doc \<noteq> NaN \<and>
             (\<forall>r. order_total doc = Fin r \<longrightarrow> wire_total (content res) = JNum (Fin r)) \<and>
             (order_total doc = PosInf \<or> order_total doc = NegInf \<longrightarrow>
                wire_total (content res) = JNull))) \<and>
         (\<forall>it p q. get_prop it ''price'' = Inr (JNum p) \<and> get_prop it ''quantity'' = Inr (JNum q)
            \<longrightarrow> line_amount L it = Inr (num_mul L p q)) \<and>
         post_orders L secret now newId (st\<lparr>products := ps\<rparr>) req = (res, st'\<lparr>products := ps\<rparr>)"
proof (intro conjI allI impI)
  from auth obtain i where req': "req' = req\<lparr>userId := i\<rparr>"
    using authUser_Inr by blast
  have h: "orders_handler L now newId st req' = (res, st')"
    using run auth by (simp add: post_orders_def guarded_def)
  show "(res = reply 500 ''Server error'' \<and> st' = st) \<or>
          (\<exists>doc amts. res = \<lparr>status = 201, content = OrderDoc doc\<rparr> \<and>
             st' = st\<lparr>orders := orders st @ [doc]\<rparr> \<and>
             map (line_amount L) its = map Inr amts \<and>
             order_total doc = foldl (num_add L) 0 amts \<and>
             order_total doc \<noteq> NaN \<and>
             (\<forall>r. order_total doc = Fin r \<longrightarrow> wire_total (content res) = JNum (Fin r)) \<and>
             (order_total doc = PosInf \<or> order_total doc = NegInf \<longrightarrow>
                wire_total (content res) = JNull))"
  proof (cases "orders_body L now newId st req'")
    case (Inl e)
    with h show ?thesis by (simp add: orders_handler_def try_catch_def)
  next
    case (Inr r)
    with h have r: "r = (res, st')" by (simp add: orders_handler_def try_catch_def)
    from Inr r items nonempty req' obtain tot doc where
      t: "reduce_total L 0 its = Inr tot"
      and c: "Order_create L now newId st i its tot = Inr (doc, st')"
      and res: "res = \<lparr>status = 201, content = OrderDoc doc\<rparr>"
      by (auto simp: orders_body_def bindE_eq_Inr)
    from reduce_total_fold[OF t] obtain amts where
      m: "map (line_amount L) its = map Inr amts" and f: "tot = foldl (num_add L) 0 amts"
      by auto
    from Order_create_Inr[OF c] have
      d: "order_total doc = tot" "tot \<noteq> NaN" "st' = st\<lparr>orders := orders st @ [doc]\<rparr>"
      by simp_all
    have w: "(\<forall>r. order_total doc = Fin r \<longrightarrow> wire_total (content res) = JNum (Fin r)) \<and>
        (order_total doc = PosInf \<or> order_total doc = NegInf \<longrightarrow>
           wire_total (content res) = JNull)"
      by (auto simp: res)
    from res d m f w show ?thesis by blast
  qed
next
  fix it p q
  assume "get_prop it ''price'' = Inr (JNum p) \<and> get_prop it ''quantity'' = Inr (JNum q)"
  then show "line_amount L it = Inr (num_mul L p q)"
    by (simp add: line_amount_numbers)
next
  show "post_orders L secret now newId (st\<lparr>products := ps\<rparr>) req = (res, st'\<lparr>products := ps\<rparr>)"
    using run by (simp add: post_orders_products)
qed

theorem orders_total_is_sum_witness:
  "authUser demo ''dev_secret'' 2000 (order_request [line 10 2, line 5 1]) =
     Inr ((order_request [line 10 2, line 5 1])\<lparr>userId := JStr ''507f1f77bcf86cd799439011''\<rparr>) \<and>
   get_prop (body (order_request [line 10 2, line 5 1])) ''items'' = Inr (JArr [line 10 2, line 5 1]) \<and>
   [line 10 2, line 5 1] \<noteq> [] \<and>
   (\<exists>doc. post_orders demo ''dev_secret'' 2000 ''65a1b2c3d4e5f60718293a4c'' empty_store
             (order_request [line 10 2, line 5 1]) =
           (\<lparr>status = 201, content = OrderDoc doc\<rparr>, empty_store\<lparr>orders := [doc]\<rparr>) \<and>
         order_total doc = Fin 25 \<and> wire_total (OrderDoc doc) = JNum (Fin 25))"
  using orders_total_is_sum [of demo "''dev_secret''" 2000 "order_request [line 10 2, line 5 1]"
      "(order_request [line 10 2, line 5 1])\<lparr>userId := JStr ''507f1f77bcf86cd799439011''\<rparr>"
      "[line 10 2, line 5 1]" "''65a1b2c3d4e5f60718293a4c''" empty_store
      "fst (post_orders demo ''dev_secret'' 2000 ''65a1b2c3d4e5f60718293a4c'' empty_store
             (order_request [line 10 2, line 5 1]))"
      "snd (post_orders demo ''dev_secret'' 2000 ''65a1b2c3d4e5f60718293a4c'' empty_store
             (order_request [line 10 2, line 5 1]))" "[]"]
  by (simp add: post_orders_def guarded_def orders_handler_def try_catch_def orders_body_def
      Order_create_def authUser_def jwt_verify_def demo_def demo_token_def order_request_def
      plain_request_def decoded_id_def line_def empty_store_def zero_jsnum_def Let_def)

lemma bearer_prefix: "take 7 a = ''Bearer '' \<longleftrightarrow> (\<exists>t. a = ''Bearer '' @ t)"
proof
  assume "take 7 a = ''Bearer ''"
  then have "a = ''Bearer '' @ drop 7 a"
    by (metis append_take_drop_id)
  then show "\<exists>t. a = ''Bearer '' @ t" ..
next
  assume "\<exists>t. a = ''Bearer '' @ t"
  then show "take 7 a = ''Bearer ''" by auto
qed

lemma authUser_no_token:
  assumes "authorization req = None \<or>
           (\<exists>a. authorization req = Some a \<and> (\<forall>t. a = ''Bearer '' @ t \<longrightarrow> t = []))"
  shows "authUser L secret now req = Inl (reply 401 ''No token provided'')"
proof (cases "authorization req")
  case None
  then show ?thesis by (simp add: authUser_def)
next
  case (Some a)
  with assms have a: "\<forall>t. a = ''Bearer '' @ t \<longrightarrow> t = []" by simp
  show ?thesis
  proof (cases "take 7 a = ''Bearer ''")
    case True
    then have "a = ''Bearer '' @ drop 7 a" by (metis append_take_drop_id)
    with a have "drop 7 a = []" by blast
    with True Some show ?thesis by (simp add: authUser_def)
  next
    case False
    with Some show ?thesis by (simp add: authUser_def)
  qed
qed

lemma authUser_token:
  assumes "authorization req = Some (''Bearer '' @ t)" and "t \<noteq> []"
  shows "authUser L secret now req =
           (case decoded_id L secret now t of
              Inl e \<Rightarrow> Inl (reply 401 ''Invalid token'')
            | Inr i \<Rightarrow> Inr (req\<lparr>userId := i\<rparr>))"
  using assms by (simp add: authUser_def)

section \<open>C4: the contract of the middleware\<close>

text \<open>
  C4. The middleware answers 401 "No token provided" when the Authorization header is
  absent or is not \<open>Bearer\<close>, a space and a non-empty token; otherwise 401 "Invalid
  token" when verifying the token throws (or the verified payload has no readable
  \<open>id\<close>); otherwise it hands on the request with \<open>userId\<close> set to the decoded id
  and nothing else changed. On a rejection the route returns that response and the
  store as it was; on success the handler runs on the store as it was.
\<close>

theorem authUser_contract:
  "(authorization req = None \<or>
      (\<exists>a. authorization req = Some a \<and> (\<forall>t. a = ''Bearer '' @ t \<longrightarrow> t = []))
      \<longrightarrow> authUser L secret now req = Inl (reply 401 ''No token provided'')) \<and>
   (\<forall>t. authorization req = Some (''Bearer '' @ t) \<and> t \<noteq> [] \<longrightarrow>
      (\<forall>e. jwt_verify L t secret now = Inl e \<longrightarrow>
         authUser L secret now req = Inl (reply 401 ''Invalid token'')) \<and>
      (\<forall>decoded e. jwt_verify L t secret now = Inr decoded \<and> get_prop decoded ''id'' = Inl e \<longrightarrow>
         authUser L secret now req = Inl (reply 401 ''Invalid token'')) \<and>
      (\<forall>decoded i. jwt_verify L t secret now = Inr decoded \<and> get_prop decoded ''id'' = Inr i \<longrightarrow>
         authUser L secret now req = Inr (req\<lparr>userId := i\<rparr>))) \<and>
   (\<forall>r. authUser L secret now req = Inl r \<longrightarrow>
      guarded (authUser L secret now req) handler st = (r, st)) \<and>
   (\<forall>req'. authUser L secret now req = Inr req' \<longrightarrow>
      guarded (authUser L secret now req) handler st = handler st req')"
proof (intro conjI allI impI)
  assume "authorization req = None \<or>
      (\<exists>a. authorization req = Some a \<and> (\<forall>t. a = ''Bearer '' @ t \<longrightarrow> t = []))"
  then show "authUser L secret now req = Inl (reply 401 ''No token provided'')"
    by (rule authUser_no_token)
next
  fix t e
  assume "authorization req = Some (''Bearer '' @ t) \<and> t \<noteq> []"
    and "jwt_verify L t secret now = Inl e"
  then show "authUser L secret now req = Inl (reply 401 ''Invalid token'')"
    by (simp add: authUser_token decoded_id_def)
next
  fix t decoded e
  assume "authorization req = Some (''Bearer '' @ t) \<and> t \<noteq> []"
    and "jwt_verify L t secret now = Inr decoded \<and> get_prop decoded ''id'' = Inl e"
  then show "authUser L secret now req = Inl (reply 401 ''Invalid token'')"
    by (simp add: authUser_token decoded_id_def)
next
  fix t decoded i
  assume "authorization req = Some (''Bearer '' @ t) \<and> t \<noteq> []"
    and "jwt_verify L t secret now = Inr decoded \<and> get_prop decoded ''id'' = Inr i"
  then show "authUser L secret now req = Inr (req\<lparr>userId := i\<rparr>)"
    by (simp add: authUser_token decoded_id_def)
next
  fix r
  assume "authUser L secret now req = Inl r"
  then show "guarded (authUser L secret now req) handler st = (r, st)"
    by (simp add: guarded_def)
next
  fix req'
  assume "authUser L secret now req = Inr req'"
  then show "guarded (authUser L secret now req) handler st = handler st req'"
    by (simp add: guarded_def)
qed

theorem authUser_contract_witness:
  "authUser demo ''dev_secret'' 2000 (plain_request None JNull) =
     Inl (reply 401 ''No token provided'') \<and>
   authUser demo ''dev_secret'' 2000 (plain_request (Some ''Basic abc'') JNull) =
     Inl (reply 401 ''No token provided'') \<and>
   jwt_verify demo ''bad'' ''dev_secret'' 2000 = Inl JsonWebTokenError \<and>
   authUser demo ''dev_secret'' 2000 (plain_request (Some ''Bearer bad'') JNull) =
     Inl (reply 401 ''Invalid token'') \<and>
   jwt_verify demo ''tok'' ''dev_secret'' 2000 = Inr (jwt_payload demo_token) \<and>
   get_prop (jwt_payload demo_token) ''id'' = Inr (JStr ''507f1f77bcf86cd799439011'') \<and>
   authUser demo ''dev_secret'' 2000 (plain_request (Some ''Bearer tok'') JNull) =
     Inr ((plain_request (Some ''Bearer tok'') JNull)\<lparr>userId := JStr ''507f1f77bcf86cd799439011''\<rparr>) \<and>
   guarded (authUser demo ''dev_secret'' 2000 (plain_request None JNull))
     (orders_handler demo 2000 ''65a1b2c3d4e5f60718293a4c'') alice_store =
     (reply 401 ''No token provided'', alice_store)"
  using authUser_contract [of "plain_request None JNull" demo "''dev_secret''" 2000
      "orders_handler demo 2000 ''65a1b2c3d4e5f60718293a4c''" alice_store]
    authUser_contract [of "plain_request (Some ''Basic abc'') JNull" demo "''dev_secret''" 2000]
    authUser_contract [of "plain_request (Some ''Bearer bad'') JNull" demo "''dev_secret''" 2000]
    authUser_contract [of "plain_request (Some ''Bearer tok'') JNull" demo "''dev_secret''" 2000]
  by (simp add: plain_request_def jwt_verify_def demo_def demo_token_def authUser_def
      decoded_id_def guarded_def)

section \<open>C6: no order without a bearer token\<close>

text \<open>
  C6. POST /api/orders with no Authorization header, or with one that is not
  \<open>Bearer\<close>, a space and a non-empty token, is answered 401 and leaves the store, its
  orders among the rest, as it was.
\<close>

theorem orders_unauthenticated:
  assumes "authorization req = None \<or>
           (\<exists>a. authorization req = Some a \<and> (\<forall>t. a = ''Bearer '' @ t \<longrightarrow> t = []))"
    and "post_orders L secret now newId st req = (res, st')"
  shows "res = reply 401 ''No token provided'' \<and> status res = 401 \<and> st' = st \<and>
         orders st' = orders st"
  using assms(2) authUser_no_token[OF assms(1), of L secret now]
  by (auto simp: post_orders_def guarded_def reply_def)

theorem orders_unauthenticated_witness:
  "authorization (plain_request None (JObj [(''items'', JArr [line 10 2])])) = None \<and>
   post_orders demo ''dev_secret'' 2000 ''65a1b2c3d4e5f60718293a4c'' alice_store
     (plain_request None (JObj [(''items'', JArr [line 10 2])])) =
     (reply 401 ''No token provided'', alice_store) \<and>
   orders (snd (post_orders demo ''dev_secret'' 2000 ''65a1b2c3d4e5f60718293a4c'' alice_store
     (plain_request None (JObj [(''items'', JArr [line 10 2])])))) = orders alice_store"
  using orders_unauthenticated [of "plain_request None (JObj [(''items'', JArr [line 10 2])])"
      demo "''dev_secret''" 2000 "''65a1b2c3d4e5f60718293a4c''" alice_store
      "fst (post_orders demo ''dev_secret'' 2000 ''65a1b2c3d4e5f60718293a4c'' alice_store
         (plain_request None (JObj [(''items'', JArr [line 10 2])])))"
      "snd (post_orders demo ''dev_secret'' 2000 ''65a1b2c3d4e5f60718293a4c'' alice_store
         (plain_request None (JObj [(''items'', JArr [line 10 2])])))"]
  by (simp add: plain_request_def prod_eq_iff)


lemma jwt_verify_signed:
  assumes "jwt_decode L (jwt_sign L ident secret t0) =
             Some \<lparr>jwt_payload = JObj [(''id'', ident)], jwt_iat = t0,
                   jwt_exp = Some (t0 + 604800), jwt_key = secret\<rparr>"
  shows "jwt_verify L (jwt_sign L ident secret t0) secret t =
           (if t < t0 + 604800 then Inr (JObj [(''id'', ident)]) else Inl TokenExpiredError)"
  using assms by (simp add: jwt_verify_def)

section \<open>C2: a token is good for seven days\<close>

text \<open>
  C2. A token issued for an id at time \<open>t0\<close> (one that the library decodes to what
  was signed) verifies to that same id at every time before \<open>t0\<close> plus seven days,
  and the middleware then hands on the request with that id; from seven days after
  issue on, verification throws TokenExpiredError and the middleware answers 401
  "Invalid token". Times are whole seconds.
\<close>

theorem token_valid_for_seven_days:
  assumes codec: "jwt_decode L (jwt_sign L ident secret t0) =
             Some \<lparr>jwt_payload = JObj [(''id'', ident)], jwt_iat = t0,
                   jwt_exp = Some (t0 + 604800), jwt_key = secret\<rparr>"
    and nonempty: "jwt_sign L ident secret t0 \<noteq> []"
    and header: "authorization req = Some (''Bearer '' @ jwt_sign L ident secret t0)"
  shows "(t < t0 + 7 * 24 * 60 * 60 \<longrightarrow>
            decoded_id L secret t (jwt_sign L ident secret t0) = Inr ident \<and>
            authUser L secret t req = Inr (req\<lparr>userId := ident\<rparr>)) \<and>
         (t0 + 7 * 24 * 60 * 60 \<le> t \<longrightarrow>
            jwt_verify L (jwt_sign L ident secret t0) secret t = Inl TokenExpiredError \<and>
            authUser L secret t req = Inl (reply 401 ''Invalid token''))"
proof -
  have v: "jwt_verify L (jwt_sign L ident secret t0) secret t =
           (if t < t0 + 604800 then Inr (JObj [(''id'', ident)]) else Inl TokenExpiredError)"
    using codec by (rule jwt_verify_signed)
  have a: "authUser L secret t req =
           (case decoded_id L secret t (jwt_sign L ident secret t0) of
              Inl e \<Rightarrow> Inl (reply 401 ''Invalid token'')
            | Inr i \<Rightarrow> Inr (req\<lparr>userId := i\<rparr>))"
    using header nonempty by (rule authUser_token)
  show ?thesis
    by (simp add: a v decoded_id_def)
qed

theorem token_valid_for_seven_days_witness:
  "jwt_decode demo (jwt_sign demo (JStr ''507f1f77bcf86cd799439011'') ''dev_secret'' 1000) =
     Some \<lparr>jwt_payload = JObj [(''id'', JStr ''507f1f77bcf86cd799439011'')], jwt_iat = 1000,
           jwt_exp = Some (1000 + 604800), jwt_key = ''dev_secret''\<rparr> \<and>
   jwt_sign demo (JStr ''507f1f77bcf86cd799439011'') ''dev_secret'' 1000 = ''tok'' \<and>
   (605799::nat) < 1000 + 7 * 24 * 60 * 60 \<and>
   decoded_id demo ''dev_secret'' 605799 ''tok'' = Inr (JStr ''507f1f77bcf86cd799439011'') \<and>
   authUser demo ''dev_secret'' 605799 (plain_request (Some ''Bearer tok'') JNull) =
     Inr ((plain_request (Some ''Bearer tok'') JNull)\<lparr>userId := JStr ''507f1f77bcf86cd799439011''\<rparr>) \<and>
   (1000::nat) + 7 * 24 * 60 * 60 \<le> 605800 \<and>
   jwt_verify demo ''tok'' ''dev_secret'' 605800 = Inl TokenExpiredError \<and>
   authUser demo ''dev_secret'' 605800 (plain_request (Some ''Bearer tok'') JNull) =
     Inl (reply 401 ''Invalid token'')"
proof -
  have codec: "jwt_decode demo (jwt_sign demo (JStr ''507f1f77bcf86cd799439011'') ''dev_secret'' 1000) =
     Some \<lparr>jwt_payload = JObj [(''id'', JStr ''507f1f77bcf86cd799439011'')], jwt_iat = 1000,
           jwt_exp = Some (1000 + 604800), jwt_key = ''dev_secret''\<rparr>"
    by (simp add: jwt_sign_def demo_def demo_token_def)
  have tok: "jwt_sign demo (JStr ''507f1f77bcf86cd799439011'') ''dev_secret'' 1000 = ''tok''"
    by (simp add: jwt_sign_def demo_def)
  have nonempty: "jwt_sign demo (JStr ''507f1f77bcf86cd799439011'') ''dev_secret'' 1000 \<noteq> []"
    by (simp add: tok)
  have header: "authorization (plain_request (Some ''Bearer tok'') JNull) =
      Some (''Bearer '' @ jwt_sign demo (JStr ''507f1f77bcf86cd799439011'') ''dev_secret'' 1000)"
    by (simp add: tok plain_request_def)
  show ?thesis
    using token_valid_for_seven_days [OF codec nonempty header, of 605799]
      token_valid_for_seven_days [OF codec nonempty header, of 605800] codec tok
    by simp
qed



section \<open>C3: the two login failures look the same\<close>




section \<open>C7: malformed and unknown product identifiers\<close>

text \<open>
  The claim as written fails on a store that is not connected: a well-formed
  identifier that no stored product has is then answered 400 "Invalid ID", as a
  malformed one is, because the \<open>catch\<close> of lines 84-86 takes the store's error too.
\<close>

theorem product_lookup_counterexample:
  "cast_objectid demo (JStr ''65a1b2c3d4e5f60718293a4d'') = Some ''65a1b2c3d4e5f60718293a4d'' \<and>
   products (alice_store\<lparr>connected := False\<rparr>) = [] \<and>
   get_product demo (alice_store\<lparr>connected := False\<rparr>)
     ((plain_request None JNull)\<lparr>params_id := ''65a1b2c3d4e5f60718293a4d''\<rparr>) =
     (reply 400 ''Invalid ID'', alice_store\<lparr>connected := False\<rparr>) \<and>
   status (reply 400 ''Invalid ID'') \<noteq> 404"
  by (simp add: get_product_def Product_findById_def try_catch_def demo_def alice_store_def
      plain_request_def reply_def)

text \<open>
  C7, amended. GET /api/products/:id answers 400 when the identifier cannot be cast to
  an ObjectId, whatever the store; it answers 404 when the identifier can be cast, the
  store is connected and no stored product has it. On a connected store the two are
  never confused: 400 is answered only for a malformed identifier and 404 only for a
  well-formed one that matches nothing.
\<close>

theorem product_lookup_failures:
  "(cast_objectid L (JStr (params_id req)) = None \<longrightarrow>
      get_product L st req = (reply 400 ''Invalid ID'', st) \<and>
      status (fst (get_product L st req)) = 400) \<and>
   (\<forall>oid. cast_objectid L (JStr (params_id req)) = Some oid \<and> connected st \<and>
      find (\<lambda>p. product_id p = oid) (products st) = None \<longrightarrow>
      get_product L st req = (reply 404 ''Product not found'', st) \<and>
      status (fst (get_product L st req)) = 404) \<and>
   (connected st \<longrightarrow>
      (status (fst (get_product L st req)) = 400
         \<longleftrightarrow> cast_objectid L (JStr (params_id req)) = None) \<and>
      (status (fst (get_product L st req)) = 404
         \<longleftrightarrow> (\<exists>oid. cast_objectid L (JStr (params_id req)) = Some oid \<and>
               find (\<lambda>p. product_id p = oid) (products st) = None)))"
  by (auto simp: get_product_def Product_findById_def try_catch_def reply_def
      split: option.splits)

theorem product_lookup_failures_witness:
  "cast_objectid demo (JStr (params_id ((plain_request None JNull)\<lparr>params_id := ''42''\<rparr>))) = None \<and>
   get_product demo empty_store ((plain_request None JNull)\<lparr>params_id := ''42''\<rparr>) =
     (reply 400 ''Invalid ID'', empty_store) \<and>
   cast_objectid demo
     (JStr (params_id ((plain_request None JNull)\<lparr>params_id := ''65a1b2c3d4e5f60718293a4b''\<rparr>))) =
     Some ''65a1b2c3d4e5f60718293a4b'' \<and>
   connected empty_store \<and>
   find (\<lambda>p. product_id p = ''65a1b2c3d4e5f60718293a4b'') (products empty_store) = None \<and>
   get_product demo empty_store
     ((plain_request None JNull)\<lparr>params_id := ''65a1b2c3d4e5f60718293a4b''\<rparr>) =
     (reply 404 ''Product not found'', empty_store)"
proof -
  let ?bad = "(plain_request None JNull)\<lparr>params_id := ''42''\<rparr>"
  let ?good = "(plain_request None JNull)\<lparr>params_id := ''65a1b2c3d4e5f60718293a4b''\<rparr>"
  have malformed: "cast_objectid demo (JStr (params_id ?bad)) = None"
    by (simp add: demo_def plain_request_def)
  have wellformed: "cast_objectid demo (JStr (params_id ?good)) = Some ''65a1b2c3d4e5f60718293a4b''"
    by (simp add: demo_def plain_request_def)
  have up: "connected empty_store"
    and absent: "find (\<lambda>p. product_id p = ''65a1b2c3d4e5f60718293a4b'') (products empty_store) = None"
    by (simp_all add: empty_store_def)
  have "get_product demo empty_store ?bad = (reply 400 ''Invalid ID'', empty_store)"
    using product_lookup_failures [of demo ?bad empty_store] malformed by blast
  moreover have "get_product demo empty_store ?good = (reply 404 ''Product not found'', empty_store)"
    using product_lookup_failures [of demo ?good empty_store] wellformed up absent by blast
  ultimately show ?thesis
    using malformed wellformed up absent by simp
qed


lemma find_stored_email:
  "e \<in> set (map user_email us) \<Longrightarrow> \<exists>u. find (\<lambda>u. user_email u = e) us = Some u"
  by (induction us) auto

lemma User_create_Inr:
  "User_create L newId st name email hash = Inr (u, st') \<Longrightarrow>
     st' = st\<lparr>users := users st @ [u]\<rparr> \<and> user_email u \<notin> set (map user_email (users st))"
  by (auto simp: User_create_def bindE_eq_Inr Let_def split: if_splits)

lemma register_store:
  "snd (register L secret now newId st req) = st \<or>
   (\<exists>u. snd (register L secret now newId st req) = st\<lparr>users := users st @ [u]\<rparr> \<and>
        user_email u \<notin> set (map user_email (users st)))"
proof (cases "register_body L secret now newId st req")
  case (Inl e)
  then show ?thesis by (simp add: register_def try_catch_def)
next
  case (Inr r)
  then have r: "register L secret now newId st req = r"
    by (simp add: register_def try_catch_def)
  from Inr have "snd r = st \<or>
      (\<exists>name email hash u. User_create L newId st name email hash = Inr (u, snd r))"
    by (auto simp: register_body_def bindE_eq_Inr split: if_splits option.splits)
  then show ?thesis
  proof
    assume "snd r = st"
    with r show ?thesis by simp
  next
    assume "\<exists>name email hash u. User_create L newId st name email hash = Inr (u, snd r)"
    then obtain name email hash u where
      "User_create L newId st name email hash = Inr (u, snd r)" by blast
    from User_create_Inr[OF this] r show ?thesis by auto
  qed
qed

lemma register_stored_email:
  assumes "get_prop (body req) ''email'' = Inr (JStr e)"
    and "e \<in> set (map user_email (users st))"
  shows "snd (register L secret now newId st req) = st"
proof (cases "register_body L secret now newId st req")
  case (Inl err)
  then show ?thesis by (simp add: register_def try_catch_def)
next
  case (Inr r)
  then have r: "register L secret now newId st req = r"
    by (simp add: register_def try_catch_def)
  from find_stored_email[OF assms(2)] obtain u where
    "find (\<lambda>u. user_email u = e) (users st) = Some u" ..
  with Inr assms(1) have "snd r = st"
    by (auto simp: register_body_def bindE_eq_Inr User_findOne_def split: if_splits)
  with r show ?thesis by simp
qed

lemma register_conflict_409:
  assumes "get_prop (body req) ''name'' = Inr name" and "truthy name"
    and "get_prop (body req) ''email'' = Inr (JStr e)" and "e \<noteq> []"
    and "get_prop (body req) ''password'' = Inr password" and "truthy password"
    and "e \<in> set (map user_email (users st))" and "connected st"
  shows "register L secret now newId st req = (reply 409 ''Email already registered'', st)"
proof -
  from find_stored_email[OF assms(7)] obtain u where
    "find (\<lambda>u. user_email u = e) (users st) = Some u" ..
  with assms show ?thesis
    by (simp add: register_def try_catch_def register_body_def User_findOne_def)
qed

section \<open>C5: registering an email that is taken\<close>

text \<open>
  The claim as written fails: a request that carries a stored email and no name is
  answered 400 "Missing fields", not 409, because the presence check of line 93 comes
  before the lookup.
\<close>

theorem register_conflict_counterexample:
  "get_prop (body (plain_request None (JObj [(''email'', JStr ''alice@example.com'')]))) ''email'' =
     Inr (JStr (user_email alice)) \<and>
   alice \<in> set (users alice_store) \<and>
   register demo ''dev_secret'' 2000 ''65a1b2c3d4e5f60718293a4c'' alice_store
     (plain_request None (JObj [(''email'', JStr ''alice@example.com'')])) =
     (reply 400 ''Missing fields'', alice_store) \<and>
   status (reply 400 ''Missing fields'') \<noteq> 409"
  by (simp add: register_def try_catch_def register_body_def plain_request_def alice_def
      alice_store_def reply_def)

text \<open>
  C5, amended. A registration whose email is that of a stored user never changes the
  store; when its name, email and password are all present and the store is connected
  it is answered 409 "Email already registered". Whatever the request, registration
  keeps the stored emails distinct.
\<close>

theorem register_conflict:
  "(get_prop (body req) ''email'' = Inr (JStr e) \<and> e \<in> set (map user_email (users st)) \<longrightarrow>
      snd (register L secret now newId st req) = st \<and>
      (\<forall>name password.
         get_prop (body req) ''name'' = Inr name \<and> truthy name \<and>
         get_prop (body req) ''password'' = Inr password \<and> truthy password \<and>
         e \<noteq> [] \<and> connected st \<longrightarrow>
         register L secret now newId st req = (reply 409 ''Email already registered'', st))) \<and>
   (distinct (map user_email (users st)) \<longrightarrow>
      distinct (map user_email (users (snd (register L secret now newId st req)))))"
proof (intro conjI impI allI)
  assume "get_prop (body req) ''email'' = Inr (JStr e) \<and> e \<in> set (map user_email (users st))"
  then show "snd (register L secret now newId st req) = st"
    using register_stored_email by blast
next
  fix name password
  assume "get_prop (body req) ''email'' = Inr (JStr e) \<and> e \<in> set (map user_email (users st))"
    and "get_prop (body req) ''name'' = Inr name \<and> truthy name \<and>
         get_prop (body req) ''password'' = Inr password \<and> truthy password \<and>
         e \<noteq> [] \<and> connected st"
  then show "register L secret now newId st req = (reply 409 ''Email already registered'', st)"
    using register_conflict_409 by blast
next
  assume d: "distinct (map user_email (users st))"
  from register_store[of L secret now newId st req]
  show "distinct (map user_email (users (snd (register L secret now newId st req))))"
  proof
    assume "snd (register L secret now newId st req) = st"
    with d show ?thesis by simp
  next
    assume "\<exists>u. snd (register L secret now newId st req) = st\<lparr>users := users st @ [u]\<rparr> \<and>
        user_email u \<notin> set (map user_email (users st))"
    with d show ?thesis by auto
  qed
qed

theorem register_conflict_witness:
  "get_prop (body (register_request ''Bob'' ''alice@example.com'' ''pw'')) ''email'' =
     Inr (JStr ''alice@example.com'') \<and>
   ''alice@example.com'' \<in> set (map user_email (users alice_store)) \<and>
   get_prop (body (register_request ''Bob'' ''alice@example.com'' ''pw'')) ''name'' =
     Inr (JStr ''Bob'') \<and> truthy (JStr ''Bob'') \<and>
   get_prop (body (register_request ''Bob'' ''alice@example.com'' ''pw'')) ''password'' =
     Inr (JStr ''pw'') \<and> truthy (JStr ''pw'') \<and>
   connected alice_store \<and> distinct (map user_email (users alice_store)) \<and>
   register demo ''dev_secret'' 2000 ''65a1b2c3d4e5f60718293a4c'' alice_store
     (register_request ''Bob'' ''alice@example.com'' ''pw'') =
     (reply 409 ''Email already registered'', alice_store) \<and>
   distinct (map user_email (users (snd (register demo ''dev_secret'' 2000
     ''65a1b2c3d4e5f60718293a4c'' alice_store
     (register_request ''Bob'' ''alice@example.com'' ''pw'')))))"
proof -
  let ?req = "register_request ''Bob'' ''alice@example.com'' ''pw''"
  have email: "get_prop (body ?req) ''email'' = Inr (JStr ''alice@example.com'')"
    and name: "get_prop (body ?req) ''name'' = Inr (JStr ''Bob'')"
    and password: "get_prop (body ?req) ''password'' = Inr (JStr ''pw'')"
    by (simp_all add: register_request_def plain_request_def)
  have stored: "''alice@example.com'' \<in> set (map user_email (users alice_store))"
    and up: "connected alice_store"
    and unique: "distinct (map user_email (users alice_store))"
    by (simp_all add: alice_store_def alice_def)
  have "register demo ''dev_secret'' 2000 ''65a1b2c3d4e5f60718293a4c'' alice_store ?req =
     (reply 409 ''Email already registered'', alice_store)"
    using register_conflict [of ?req "''alice@example.com''" alice_store demo "''dev_secret''"
        2000 "''65a1b2c3d4e5f60718293a4c''"] email name password stored up
    by simp
  moreover have "distinct (map user_email (users (snd (register demo ''dev_secret'' 2000
     ''65a1b2c3d4e5f60718293a4c'' alice_store ?req))))"
    using register_conflict [of ?req "''alice@example.com''" alice_store demo "''dev_secret''"
        2000 "''65a1b2c3d4e5f60718293a4c''"] unique
    by blast
  ultimately show ?thesis
    using email name password stored up unique by simp
qed


lemma required_objectid_error: "required_objectid L v = Inl e \<Longrightarrow> e = ValidationError"
  by (cases v) (auto split: option.splits)

lemma required_number_error: "required_number L v = Inl e \<Longrightarrow> e = ValidationError"
  by (induction L v rule: required_number.induct) (auto split: option.splits)

lemma cast_item_error: "cast_item L it = Inl e \<Longrightarrow> e = ValidationError"
  by (cases it)
    (auto simp: bindE_eq_Inl dest: required_objectid_error required_number_error)

lemma cast_items_error: "cast_items L its = Inl e \<Longrightarrow> e = ValidationError"
  by (induction its arbitrary: e) (auto simp: bindE_eq_Inl dest: cast_item_error)

lemma cast_item_no_productId:
  "get_prop it ''productId'' = Inr JUndefined \<Longrightarrow> cast_item L it = Inl ValidationError"
  by (cases it) auto

lemma cast_items_bad_item:
  "it \<in> set its \<Longrightarrow> cast_item L it = Inl ValidationError \<Longrightarrow>
     cast_items L its = Inl ValidationError"
proof (induction its)
  case Nil
  then show ?case by simp
next
  case (Cons a its)
  show ?case
  proof (cases "cast_item L a")
    case (Inl e)
    then show ?thesis using cast_item_error by fastforce
  next
    case (Inr i)
    with Cons have "cast_items L its = Inl ValidationError" by auto
    with Inr show ?thesis by simp
  qed
qed

lemma Order_create_no_productId:
  assumes "it \<in> set its" and "get_prop it ''productId'' = Inr JUndefined"
  shows "Order_create L now newId st uid its tot = Inl ValidationError"
proof (cases "required_objectid L uid")
  case (Inl e)
  then show ?thesis
    using required_objectid_error by (fastforce simp: Order_create_def)
next
  case (Inr u)
  with cast_items_bad_item[OF assms(1) cast_item_no_productId[OF assms(2)], of L]
  show ?thesis by (simp add: Order_create_def)
qed

lemma orders_handler_create_fails:
  assumes "get_prop (body req) ''items'' = Inr (JArr its)" and "its \<noteq> []"
    and "reduce_total L 0 its = Inr tot"
    and "Order_create L now newId st (userId req) its tot = Inl e"
  shows "orders_handler L now newId st req = (reply 500 ''Server error'', st)"
  using assms by (simp add: orders_handler_def orders_body_def try_catch_def)

lemma register_create_fails:
  assumes "get_prop (body req) ''name'' = Inr name" and "truthy name"
    and "get_prop (body req) ''email'' = Inr email" and "truthy email"
    and "get_prop (body req) ''password'' = Inr password" and "truthy password"
    and "User_findOne L st email = Inr None"
    and "bcrypt_hash L password = Inr hash"
    and "User_create L newId st name email hash = Inl e"
  shows "register L secret now newId st req = (reply 500 ''Server error'', st)"
  using assms by (simp add: register_def register_body_def try_catch_def)

section \<open>C8: a document that fails validation\<close>

text \<open>
  The claim as written fails: an order whose item has no \<open>productId\<close> fails
  validation in \<open>Order.create\<close>, and the handler's only \<open>catch\<close> answers 500
  "Server error", not 400.
\<close>

theorem validation_failure_counterexample:
  "Order_create demo 2000 ''65a1b2c3d4e5f60718293a4c'' empty_store
     (JStr ''507f1f77bcf86cd799439011'')
     [JObj [(''quantity'', JNum (Fin 2)), (''price'', JNum (Fin 10))]] (Fin 20) =
     Inl ValidationError \<and>
   post_orders demo ''dev_secret'' 2000 ''65a1b2c3d4e5f60718293a4c'' empty_store
     (order_request [JObj [(''quantity'', JNum (Fin 2)), (''price'', JNum (Fin 10))]]) =
     (reply 500 ''Server error'', empty_store) \<and>
   status (reply 500 ''Server error'') \<noteq> 400"
  by (simp add: post_orders_def guarded_def orders_handler_def try_catch_def orders_body_def
      Order_create_def authUser_def decoded_id_def jwt_verify_def demo_def demo_token_def
      order_request_def plain_request_def empty_store_def zero_jsnum_def reply_def)

text \<open>
  C8, amended. When \<open>Order.create\<close> or \<open>User.create\<close> fails, for a missing or
  mistyped required field as for any other reason, the handler answers 500 "Server
  error" and the store is as it was; an item without \<open>productId\<close> makes
  \<open>Order.create\<close> fail with a ValidationError.
\<close>

theorem validation_failure_is_500:
  "(authUser L secret now req = Inr req' \<and>
    get_prop (body req') ''items'' = Inr (JArr its) \<and> its \<noteq> [] \<and>
    reduce_total L 0 its = Inr tot \<and>
    Order_create L now newId st (userId req') its tot = Inl e \<longrightarrow>
      post_orders L secret now newId st req = (reply 500 ''Server error'', st)) \<and>
   (it \<in> set its \<and> get_prop it ''productId'' = Inr JUndefined \<longrightarrow>
      Order_create L now newId st uid its tot = Inl ValidationError) \<and>
   (get_prop (body req) ''name'' = Inr name \<and> truthy name \<and>
    get_prop (body req) ''email'' = Inr email \<and> truthy email \<and>
    get_prop (body req) ''password'' = Inr password \<and> truthy password \<and>
    User_findOne L st email = Inr None \<and> bcrypt_hash L password = Inr hash \<and>
    User_create L newId st name email hash = Inl e \<longrightarrow>
      register L secret now newId st req = (reply 500 ''Server error'', st))"
proof (intro conjI impI)
  assume "authUser L secret now req = Inr req' \<and>
    get_prop (body req') ''items'' = Inr (JArr its) \<and> its \<noteq> [] \<and>
    reduce_total L 0 its = Inr tot \<and>
    Order_create L now newId st (userId req') its tot = Inl e"
  then show "post_orders L secret now newId st req = (reply 500 ''Server error'', st)"
    by (simp add: post_orders_def guarded_def orders_handler_create_fails)
next
  assume "it \<in> set its \<and> get_prop it ''productId'' = Inr JUndefined"
  then show "Order_create L now newId st uid its tot = Inl ValidationError"
    using Order_create_no_productId by blast
next
  assume "get_prop (body req) ''name'' = Inr name \<and> truthy name \<and>
    get_prop (body req) ''email'' = Inr email \<and> truthy email \<and>
    get_prop (body req) ''password'' = Inr password \<and> truthy password \<and>
    User_findOne L st email = Inr None \<and> bcrypt_hash L password = Inr hash \<and>
    User_create L newId st name email hash = Inl e"
  then show "register L secret now newId st req = (reply 500 ''Server error'', st)"
    using register_create_fails by blast
qed

theorem validation_failure_is_500_witness:
  "authUser demo ''dev_secret'' 2000 (order_request [JObj [(''quantity'', JNum (Fin 3)), (''price'', JNum (Fin 7))]]) =
     Inr ((order_request [JObj [(''quantity'', JNum (Fin 3)), (''price'', JNum (Fin 7))]])
            \<lparr>userId := JStr ''507f1f77bcf86cd799439011''\<rparr>) \<and>
   reduce_total demo 0 [JObj [(''quantity'', JNum (Fin 3)), (''price'', JNum (Fin 7))]] =
     Inr (Fin 21) \<and>
   get_prop (JObj [(''quantity'', JNum (Fin 3)), (''price'', JNum (Fin 7))]) ''productId'' =
     Inr JUndefined \<and>
   Order_create demo 2000 ''65a1b2c3d4e5f60718293a4c'' empty_store
     (JStr ''507f1f77bcf86cd799439011'')
     [JObj [(''quantity'', JNum (Fin 3)), (''price'', JNum (Fin 7))]] (Fin 21) =
     Inl ValidationError \<and>
   post_orders demo ''dev_secret'' 2000 ''65a1b2c3d4e5f60718293a4c'' empty_store
     (order_request [JObj [(''quantity'', JNum (Fin 3)), (''price'', JNum (Fin 7))]]) =
     (reply 500 ''Server error'', empty_store)"
proof -
  let ?it = "JObj [(''quantity'', JNum (Fin 3)), (''price'', JNum (Fin 7))]"
  let ?req = "order_request [?it]"
  let ?req' = "?req\<lparr>userId := JStr ''507f1f77bcf86cd799439011''\<rparr>"
  have auth: "authUser demo ''dev_secret'' 2000 ?req = Inr ?req'"
    by (simp add: authUser_def decoded_id_def jwt_verify_def demo_def demo_token_def
        order_request_def plain_request_def)
  have items: "get_prop (body ?req') ''items'' = Inr (JArr [?it])"
    by (simp add: order_request_def plain_request_def)
  have tot: "reduce_total demo 0 [?it] = Inr (Fin 21)"
    by (simp add: zero_jsnum_def demo_def)
  have missing: "get_prop ?it ''productId'' = Inr JUndefined"
    by simp
  have uid: "userId ?req' = JStr ''507f1f77bcf86cd799439011''"
    by simp
  have fails: "Order_create demo 2000 ''65a1b2c3d4e5f60718293a4c'' empty_store
      (JStr ''507f1f77bcf86cd799439011'') [?it] (Fin 21) = Inl ValidationError"
    using validation_failure_is_500 [of demo "''dev_secret''" 2000 ?req ?req' "[?it]" "Fin 21"
        "''65a1b2c3d4e5f60718293a4c''" empty_store ValidationError ?it
        "JStr ''507f1f77bcf86cd799439011''"] missing
    by simp
  have "post_orders demo ''dev_secret'' 2000 ''65a1b2c3d4e5f60718293a4c'' empty_store ?req =
      (reply 500 ''Server error'', empty_store)"
    using validation_failure_is_500 [of demo "''dev_secret''" 2000 ?req ?req' "[?it]" "Fin 21"
        "''65a1b2c3d4e5f60718293a4c''" empty_store ValidationError ?it
        "JStr ''507f1f77bcf86cd799439011''"] auth items tot fails uid
    by simp
  with auth tot missing fails show ?thesis by simp
qed


lemma User_findOne_down: "\<not> connected st \<Longrightarrow> \<exists>e. User_findOne L st email = Inl e"
  by (cases "email_filter L email") (simp_all add: User_findOne_def)

lemma Order_create_down:
  "\<not> connected st \<Longrightarrow> \<exists>e. Order_create L now newId st uid its tot = Inl e"
  by (simp add: Order_create_def bindE_def split: sum.splits)

lemma register_down:
  assumes "\<not> connected st"
    and "get_prop (body req) ''name'' = Inr name" and "truthy name"
    and "get_prop (body req) ''email'' = Inr email" and "truthy email"
    and "get_prop (body req) ''password'' = Inr password" and "truthy password"
  shows "register L secret now newId st req = (reply 500 ''Server error'', st)"
proof -
  from User_findOne_down[OF assms(1)] obtain e where "User_findOne L st email = Inl e"
    by blast
  with assms show ?thesis
    by (simp add: register_def register_body_def try_catch_def)
qed

lemma login_down:
  assumes "\<not> connected st"
    and "get_prop (body req) ''email'' = Inr email" and "truthy email"
    and "get_prop (body req) ''password'' = Inr password" and "truthy password"
  shows "login L secret now st req = (reply 500 ''Server error'', st)"
proof -
  from User_findOne_down[OF assms(1)] obtain e where "User_findOne L st email = Inl e"
    by blast
  with assms show ?thesis
    by (simp add: login_def login_body_def try_catch_def)
qed

lemma orders_down:
  assumes "\<not> connected st"
    and "get_prop (body req) ''items'' = Inr (JArr its)" and "its \<noteq> []"
  shows "orders_handler L now newId st req = (reply 500 ''Server error'', st)"
proof (cases "reduce_total L 0 its")
  case (Inl e)
  with assms show ?thesis
    by (simp add: orders_handler_def orders_body_def try_catch_def)
next
  case (Inr tot)
  from Order_create_down[OF assms(1)] obtain e where
    "Order_create L now newId st (userId req) its tot = Inl e" by blast
  with Inr assms show ?thesis
    by (simp add: orders_handler_def orders_body_def try_catch_def)
qed

lemma get_product_store: "snd (get_product L st req) = st"
  by (simp add: get_product_def try_catch_def bindE_def split: sum.splits option.splits)

section \<open>C9: errors raised while a request is handled\<close>

text \<open>
  The claim as written fails on GET /api/products/:id: with a well-formed identifier
  and a store that is not connected, the lookup rejects with a store error and the
  \<open>catch\<close> of lines 84-86 answers 400 "Invalid ID", not 500.
\<close>

theorem store_failure_counterexample:
  "Product_findById demo (empty_store\<lparr>connected := False\<rparr>) ''65a1b2c3d4e5f60718293a4b'' =
     Inl StoreError \<and>
   get_product demo (empty_store\<lparr>connected := False\<rparr>)
     ((plain_request None JNull)\<lparr>params_id := ''65a1b2c3d4e5f60718293a4b''\<rparr>) =
     (reply 400 ''Invalid ID'', empty_store\<lparr>connected := False\<rparr>) \<and>
   status (reply 400 ''Invalid ID'') \<noteq> 500"
  by (simp add: get_product_def Product_findById_def try_catch_def demo_def empty_store_def
      plain_request_def reply_def)

text \<open>
  C9, amended. On GET /api/products, POST /api/auth/register, POST /api/auth/login and
  POST /api/orders, whatever the body of the handler throws is caught by the handler
  and answered 500 "Server error", the store as it was; in particular each of them
  answers 500 once it reaches a store that is not connected. GET /api/products/:id
  catches whatever its lookup throws too, answers it with the JSON message "Invalid
  ID" of its own \<open>catch\<close>, and leaves the store alone.
\<close>

theorem errors_are_caught:
  "(Product_find st = Inl e \<longrightarrow> get_products st = (reply 500 ''Server error'', st)) \<and>
   (register_body L secret now newId st req = Inl e \<longrightarrow>
      register L secret now newId st req = (reply 500 ''Server error'', st)) \<and>
   (login_body L secret now st req = Inl e \<longrightarrow>
      login L secret now st req = (reply 500 ''Server error'', st)) \<and>
   (orders_body L now newId st req = Inl e \<longrightarrow>
      orders_handler L now newId st req = (reply 500 ''Server error'', st)) \<and>
   (\<not> connected st \<longrightarrow>
      get_products st = (reply 500 ''Server error'', st) \<and>
      (\<forall>name email password.
         get_prop (body req) ''name'' = Inr name \<and> truthy name \<and>
         get_prop (body req) ''email'' = Inr email \<and> truthy email \<and>
         get_prop (body req) ''password'' = Inr password \<and> truthy password \<longrightarrow>
         register L secret now newId st req = (reply 500 ''Server error'', st)) \<and>
      (\<forall>email password.
         get_prop (body req) ''email'' = Inr email \<and> truthy email \<and>
         get_prop (body req) ''password'' = Inr password \<and> truthy password \<longrightarrow>
         login L secret now st req = (reply 500 ''Server error'', st)) \<and>
      (\<forall>its. get_prop (body req) ''items'' = Inr (JArr its) \<and> its \<noteq> [] \<longrightarrow>
         orders_handler L now newId st req = (reply 500 ''Server error'', st))) \<and>
   (Product_findById L st (params_id req) = Inl e \<longrightarrow>
      get_product L st req = (reply 400 ''Invalid ID'', st)) \<and>
   snd (get_product L st req) = st"
proof (intro conjI impI allI)
  assume "Product_find st = Inl e"
  then show "get_products st = (reply 500 ''Server error'', st)"
    by (simp add: get_products_def try_catch_def)
next
  assume "register_body L secret now newId st req = Inl e"
  then show "register L secret now newId st req = (reply 500 ''Server error'', st)"
    by (simp add: register_def try_catch_def)
next
  assume "login_body L secret now st req = Inl e"
  then show "login L secret now st req = (reply 500 ''Server error'', st)"
    by (simp add: login_def try_catch_def)
next
  assume "orders_body L now newId st req = Inl e"
  then show "orders_handler L now newId st req = (reply 500 ''Server error'', st)"
    by (simp add: orders_handler_def try_catch_def)
next
  assume "\<not> connected st"
  then show "get_products st = (reply 500 ''Server error'', st)"
    by (simp add: get_products_def Product_find_def try_catch_def)
next
  fix name email password
  assume "\<not> connected st"
    and "get_prop (body req) ''name'' = Inr name \<and> truthy name \<and>
         get_prop (body req) ''email'' = Inr email \<and> truthy email \<and>
         get_prop (body req) ''password'' = Inr password \<and> truthy password"
  then show "register L secret now newId st req = (reply 500 ''Server error'', st)"
    using register_down by blast
next
  fix email password
  assume "\<not> connected st"
    and "get_prop (body req) ''email'' = Inr email \<and> truthy email \<and>
         get_prop (body req) ''password'' = Inr password \<and> truthy password"
  then show "login L secret now st req = (reply 500 ''Server error'', st)"
    using login_down by blast
next
  fix its
  assume "\<not> connected st"
    and "get_prop (body req) ''items'' = Inr (JArr its) \<and> its \<noteq> []"
  then show "orders_handler L now newId st req = (reply 500 ''Server error'', st)"
    using orders_down by blast
next
  assume "Product_findById L st (params_id req) = Inl e"
  then show "get_product L st req = (reply 400 ''Invalid ID'', st)"
    by (simp add: get_product_def try_catch_def)
next
  show "snd (get_product L st req) = st"
    by (rule get_product_store)
qed

theorem errors_are_caught_witness:
  "Product_find (alice_store\<lparr>connected := False\<rparr>) = Inl StoreError \<and>
   get_products (alice_store\<lparr>connected := False\<rparr>) =
     (reply 500 ''Server error'', alice_store\<lparr>connected := False\<rparr>) \<and>
   register_body demo ''dev_secret'' 2000 ''65a1b2c3d4e5f60718293a4c'' alice_store
     (plain_request None JUndefined) = Inl TypeError \<and>
   register demo ''dev_secret'' 2000 ''65a1b2c3d4e5f60718293a4c'' alice_store
     (plain_request None JUndefined) = (reply 500 ''Server error'', alice_store) \<and>
   login_body demo ''dev_secret'' 2000 alice_store
     (plain_request None (JObj [(''email'', JStr ''alice@example.com''),
                                (''password'', JNum (Fin 7))])) = Inl BcryptError \<and>
   login demo ''dev_secret'' 2000 alice_store
     (plain_request None (JObj [(''email'', JStr ''alice@example.com''),
                                (''password'', JNum (Fin 7))])) =
     (reply 500 ''Server error'', alice_store) \<and>
   orders_body demo 2000 ''65a1b2c3d4e5f60718293a4c'' alice_store (order_request [JNull]) =
     Inl TypeError \<and>
   orders_handler demo 2000 ''65a1b2c3d4e5f60718293a4c'' alice_store (order_request [JNull]) =
     (reply 500 ''Server error'', alice_store) \<and>
   login demo ''dev_secret'' 2000 (alice_store\<lparr>connected := False\<rparr>)
     (login_request ''alice@example.com'' ''correct horse'') =
     (reply 500 ''Server error'', alice_store\<lparr>connected := False\<rparr>) \<and>
   Product_findById demo alice_store
     (params_id ((plain_request None JNull)\<lparr>params_id := ''not-an-id''\<rparr>)) = Inl CastError \<and>
   get_product demo alice_store ((plain_request None JNull)\<lparr>params_id := ''not-an-id''\<rparr>) =
     (reply 400 ''Invalid ID'', alice_store)"
proof -
  let ?down = "alice_store\<lparr>connected := False\<rparr>"
  let ?nobody = "plain_request None JUndefined"
  let ?numpw = "plain_request None (JObj [(''email'', JStr ''alice@example.com''),
                                (''password'', JNum (Fin 7))])"
  let ?login = "login_request ''alice@example.com'' ''correct horse''"
  have a: "Product_find ?down = Inl StoreError"
    by (simp add: Product_find_def)
  have b: "register_body demo ''dev_secret'' 2000 ''65a1b2c3d4e5f60718293a4c'' alice_store ?nobody =
      Inl TypeError"
    by (simp add: register_body_def plain_request_def)
  have c: "login_body demo ''dev_secret'' 2000 alice_store ?numpw = Inl BcryptError"
    by (simp add: login_body_def plain_request_def User_findOne_def alice_store_def alice_def
        demo_def)
  have d: "orders_body demo 2000 ''65a1b2c3d4e5f60718293a4c'' alice_store (order_request [JNull]) =
      Inl TypeError"
    by (simp add: orders_body_def order_request_def plain_request_def)
  have down: "\<not> connected ?down"
    by simp
  have fields: "get_prop (body ?login) ''email'' = Inr (JStr ''alice@example.com'') \<and>
      truthy (JStr ''alice@example.com'') \<and>
      get_prop (body ?login) ''password'' = Inr (JStr ''correct horse'') \<and>
      truthy (JStr ''correct horse'')"
    by (simp add: login_request_def plain_request_def)
  have 1: "get_products ?down = (reply 500 ''Server error'', ?down)"
    using errors_are_caught [of ?down StoreError] a by blast
  have 2: "register demo ''dev_secret'' 2000 ''65a1b2c3d4e5f60718293a4c'' alice_store ?nobody =
      (reply 500 ''Server error'', alice_store)"
    using errors_are_caught [of alice_store TypeError demo "''dev_secret''" 2000
        "''65a1b2c3d4e5f60718293a4c''" ?nobody] b by blast
  have 3: "login demo ''dev_secret'' 2000 alice_store ?numpw =
      (reply 500 ''Server error'', alice_store)"
    using errors_are_caught [of alice_store BcryptError demo "''dev_secret''" 2000
        "''65a1b2c3d4e5f60718293a4c''" ?numpw] c by blast
  have 4: "orders_handler demo 2000 ''65a1b2c3d4e5f60718293a4c'' alice_store
      (order_request [JNull]) = (reply 500 ''Server error'', alice_store)"
    using errors_are_caught [of alice_store TypeError demo "''dev_secret''" 2000
        "''65a1b2c3d4e5f60718293a4c''" "order_request [JNull]"] d by blast
  have 5: "login demo ''dev_secret'' 2000 ?down ?login = (reply 500 ''Server error'', ?down)"
    using errors_are_caught [of ?down StoreError demo "''dev_secret''" 2000
        "''65a1b2c3d4e5f60718293a4c''" ?login] down fields by blast
  have f: "Product_findById demo alice_store
      (params_id ((plain_request None JNull)\<lparr>params_id := ''not-an-id''\<rparr>)) = Inl CastError"
    by (simp add: Product_findById_def demo_def)
  have 6: "get_product demo alice_store ((plain_request None JNull)\<lparr>params_id := ''not-an-id''\<rparr>) =
      (reply 400 ''Invalid ID'', alice_store)"
    using errors_are_caught [of alice_store CastError demo "''dev_secret''" 2000
        "''65a1b2c3d4e5f60718293a4c''" "(plain_request None JNull)\<lparr>params_id := ''not-an-id''\<rparr>"]
      f by blast
  from a b c d 1 2 3 4 5 f 6 show ?thesis by simp
qed


lemma num_add_NaN_right [simp]: "num_add L x NaN = NaN"
  by (cases x) simp_all

lemma num_mul_NaN_right [simp]: "num_mul L x NaN = NaN"
  by (cases x) simp_all

lemma foldl_from_NaN: "foldl (num_add L) NaN amts = NaN"
  by (induction amts) simp_all

lemma foldl_through_NaN: "NaN \<in> set amts \<Longrightarrow> foldl (num_add L) acc amts = NaN"
  by (induction amts arbitrary: acc) (auto simp: foldl_from_NaN)

lemma line_amount_missing:
  assumes "get_prop it ''price'' = Inr JUndefined \<or> get_prop it ''quantity'' = Inr JUndefined"
    and "line_amount L it = Inr a"
  shows "a = NaN"
  using assms by (auto simp: line_amount_def bindE_eq_Inr)

lemma reduce_total_NaN:
  assumes "it \<in> set its" and "line_amount L it = Inr NaN"
    and "reduce_total L acc its = Inr tot"
  shows "tot = NaN"
proof -
  from reduce_total_fold[OF assms(3)] obtain amts where
    m: "map (line_amount L) its = map Inr amts" and t: "tot = foldl (num_add L) acc amts"
    by blast
  from assms(1,2) have "Inr NaN \<in> set (map (line_amount L) its)"
    by force
  with m have "NaN \<in> set amts" by auto
  with t show ?thesis by (simp add: foldl_through_NaN)
qed

lemma reduce_total_line:
  "reduce_total L acc its = Inr tot \<Longrightarrow> it \<in> set its \<Longrightarrow> \<exists>a. line_amount L it = Inr a"
proof -
  assume "reduce_total L acc its = Inr tot" and i: "it \<in> set its"
  from reduce_total_fold[OF this(1)] obtain amts where
    m: "map (line_amount L) its = map Inr amts" by blast
  from i have "line_amount L it \<in> set (map (line_amount L) its)" by simp
  with m show ?thesis by auto
qed

lemma orders_handler_proceeds:
  assumes "get_prop (body req) ''items'' = Inr (JArr its)" and "its \<noteq> []"
    and "reduce_total L 0 its = Inr tot"
  shows "orders_handler L now newId st req =
           try_catch
             (bindE (Order_create L now newId st (userId req) its tot) (\<lambda>(doc, st').
                Inr (\<lparr>status = 201, content = OrderDoc doc\<rparr>, st')))
             500 ''Server error'' st"
  using assms by (simp add: orders_handler_def orders_body_def)

lemma orders_handler_not_400:
  assumes "get_prop (body req) ''items'' = Inr (JArr its)" and "its \<noteq> []"
  shows "status (fst (orders_handler L now newId st req)) \<in> {201, 500}"
  using assms
  by (auto simp: orders_handler_def orders_body_def try_catch_def bindE_def reply_def
      split: sum.splits)

section \<open>C10: a total that is not a number\<close>

text \<open>
  C10. For an authenticated request the handler checks only that \<open>items\<close> is a
  non-empty array: it never answers 400 then, and once the reduction has returned it
  calls \<open>Order.create\<close> with the computed total, whatever that is. An item whose
  price or quantity is missing, or reads as \<open>NaN\<close>, makes the total \<open>NaN\<close>; a single
  item without a price, or without a quantity, is such a request.
\<close>

theorem nan_total_reaches_create:
  "(authUser L secret now req = Inr req' \<and>
    get_prop (body req) ''items'' = Inr (JArr its) \<and> its \<noteq> [] \<longrightarrow>
      status (fst (post_orders L secret now newId st req)) \<noteq> 400 \<and>
      (\<forall>tot. reduce_total L 0 its = Inr tot \<longrightarrow>
         post_orders L secret now newId st req =
           try_catch
             (bindE (Order_create L now newId st (userId req') its tot) (\<lambda>(doc, st').
                Inr (\<lparr>status = 201, content = OrderDoc doc\<rparr>, st')))
             500 ''Server error'' st)) \<and>
   (it \<in> set its \<and>
      (get_prop it ''price'' = Inr JUndefined \<or> get_prop it ''quantity'' = Inr JUndefined \<or>
       line_amount L it = Inr NaN) \<and>
      reduce_total L 0 its = Inr tot \<longrightarrow> tot = NaN) \<and>
   reduce_total L 0 [JObj [(''productId'', p), (''quantity'', JNum (Fin q))]] = Inr NaN \<and>
   reduce_total L 0 [JObj [(''productId'', p), (''price'', JNum (Fin q))]] = Inr NaN"
proof (intro conjI impI allI)
  assume a: "authUser L secret now req = Inr req' \<and>
    get_prop (body req) ''items'' = Inr (JArr its) \<and> its \<noteq> []"
  then obtain i where "req' = req\<lparr>userId := i\<rparr>"
    using authUser_Inr by blast
  with a have b: "get_prop (body req') ''items'' = Inr (JArr its)" and n: "its \<noteq> []"
    by simp_all
  from a have p: "post_orders L secret now newId st req = orders_handler L now newId st req'"
    by (simp add: post_orders_def guarded_def)
  from orders_handler_not_400[OF b n, of L now newId st]
  show "status (fst (post_orders L secret now newId st req)) \<noteq> 400"
    by (auto simp: p)
  fix tot
  assume "reduce_total L 0 its = Inr tot"
  from orders_handler_proceeds[OF b n this]
  show "post_orders L secret now newId st req =
           try_catch
             (bindE (Order_create L now newId st (userId req') its tot) (\<lambda>(doc, st').
                Inr (\<lparr>status = 201, content = OrderDoc doc\<rparr>, st')))
             500 ''Server error'' st"
    by (simp add: p)
next
  assume a: "it \<in> set its \<and>
      (get_prop it ''price'' = Inr JUndefined \<or> get_prop it ''quantity'' = Inr JUndefined \<or>
       line_amount L it = Inr NaN) \<and>
      reduce_total L 0 its = Inr tot"
  then obtain amt where amt: "line_amount L it = Inr amt"
    using reduce_total_line by blast
  with a have "line_amount L it = Inr NaN"
    using line_amount_missing by fastforce
  with a show "tot = NaN"
    using reduce_total_NaN by blast
next
  show "reduce_total L 0 [JObj [(''productId'', p), (''quantity'', JNum (Fin q))]] = Inr NaN"
    by simp
  show "reduce_total L 0 [JObj [(''productId'', p), (''price'', JNum (Fin q))]] = Inr NaN"
    by simp
qed

theorem nan_total_reaches_create_witness:
  "authUser demo ''dev_secret'' 2000
     (order_request [JObj [(''productId'', JStr ''65a1b2c3d4e5f60718293a4b''),
       (''quantity'', JNum (Fin 2))]]) =
     Inr ((order_request [JObj [(''productId'', JStr ''65a1b2c3d4e5f60718293a4b''),
       (''quantity'', JNum (Fin 2))]])\<lparr>userId := JStr ''507f1f77bcf86cd799439011''\<rparr>) \<and>
   get_prop (body (order_request [JObj [(''productId'', JStr ''65a1b2c3d4e5f60718293a4b''),
       (''quantity'', JNum (Fin 2))]])) ''items'' =
     Inr (JArr [JObj [(''productId'', JStr ''65a1b2c3d4e5f60718293a4b''),
       (''quantity'', JNum (Fin 2))]]) \<and>
   get_prop (JObj [(''productId'', JStr ''65a1b2c3d4e5f60718293a4b''),
       (''quantity'', JNum (Fin 2))]) ''price'' = Inr JUndefined \<and>
   reduce_total demo 0 [JObj [(''productId'', JStr ''65a1b2c3d4e5f60718293a4b''),
       (''quantity'', JNum (Fin 2))]] = Inr NaN \<and>
   post_orders demo ''dev_secret'' 2000 ''65a1b2c3d4e5f60718293a4c'' empty_store
     (order_request [JObj [(''productId'', JStr ''65a1b2c3d4e5f60718293a4b''),
       (''quantity'', JNum (Fin 2))]]) =
     try_catch
       (bindE (Order_create demo 2000 ''65a1b2c3d4e5f60718293a4c'' empty_store
                 (JStr ''507f1f77bcf86cd799439011'')
                 [JObj [(''productId'', JStr ''65a1b2c3d4e5f60718293a4b''),
                        (''quantity'', JNum (Fin 2))]] NaN)
          (\<lambda>(doc, st'). Inr (\<lparr>status = 201, content = OrderDoc doc\<rparr>, st')))
       500 ''Server error'' empty_store \<and>
   status (fst (post_orders demo ''dev_secret'' 2000 ''65a1b2c3d4e5f60718293a4c'' empty_store
     (order_request [JObj [(''productId'', JStr ''65a1b2c3d4e5f60718293a4b''),
       (''quantity'', JNum (Fin 2))]]))) = 500"
proof -
  let ?it = "JObj [(''productId'', JStr ''65a1b2c3d4e5f60718293a4b''), (''quantity'', JNum (Fin 2))]"
  let ?req = "order_request [?it]"
  let ?req' = "?req\<lparr>userId := JStr ''507f1f77bcf86cd799439011''\<rparr>"
  have auth: "authUser demo ''dev_secret'' 2000 ?req = Inr ?req'"
    by (simp add: authUser_def decoded_id_def jwt_verify_def demo_def demo_token_def
        order_request_def plain_request_def)
  have items: "get_prop (body ?req) ''items'' = Inr (JArr [?it])"
    by (simp add: order_request_def plain_request_def)
  have missing: "get_prop ?it ''price'' = Inr JUndefined"
    by simp
  have tot: "reduce_total demo 0 [?it] = Inr NaN"
    using nan_total_reaches_create [of demo "''dev_secret''" 2000 ?req ?req' "[?it]"
        "''65a1b2c3d4e5f60718293a4c''" empty_store ?it NaN "JStr ''65a1b2c3d4e5f60718293a4b''" 2]
    by simp
  have uid: "userId ?req' = JStr ''507f1f77bcf86cd799439011''"
    by simp
  have run: "post_orders demo ''dev_secret'' 2000 ''65a1b2c3d4e5f60718293a4c'' empty_store ?req =
     try_catch
       (bindE (Order_create demo 2000 ''65a1b2c3d4e5f60718293a4c'' empty_store
                 (JStr ''507f1f77bcf86cd799439011'') [?it] NaN)
          (\<lambda>(doc, st'). Inr (\<lparr>status = 201, content = OrderDoc doc\<rparr>, st')))
       500 ''Server error'' empty_store"
    using nan_total_reaches_create [of demo "''dev_secret''" 2000 ?req ?req' "[?it]"
        "''65a1b2c3d4e5f60718293a4c''" empty_store ?it NaN "JStr ''65a1b2c3d4e5f60718293a4b''" 2]
      auth items tot uid
    by simp
  have "Order_create demo 2000 ''65a1b2c3d4e5f60718293a4c'' empty_store
          (JStr ''507f1f77bcf86cd799439011'') [?it] NaN = Inl ValidationError"
    by (simp add: Order_create_def demo_def)
  with run have "status (fst (post_orders demo ''dev_secret'' 2000 ''65a1b2c3d4e5f60718293a4c''
      empty_store ?req)) = 500"
    by (simp add: try_catch_def reply_def)
  with auth items missing tot run show ?thesis by simp
qed

end
